theory Spec2Isabelle
  imports Main
begin

section \<open>The embedded-interpreter bridge of cgo\_functions.c\<close>

text \<open>
  The file \<^verbatim>\<open>pkg/preprocessing/chat_completions/cgo_functions.c\<close> keeps its state in
  file-scope globals and talks to the embedded interpreter through the C API. The
  globals become the fields of one record that every function takes and returns. The
  C API itself is outside the file: what its calls answer is a parameter, the record
  \<open>pyenv\<close>.
\<close>

subsection \<open>Data\<close>

text \<open>A \<^verbatim>\<open>PyObject*\<close> is an object identity or \<^verbatim>\<open>NULL\<close> (\<open>None\<close>).\<close>

type_synonym pyobj = nat

text \<open>
  What the interpreter and the operating system answer. Each field is named after the
  call it stands for; a \<open>None\<close> is the call's \<^verbatim>\<open>NULL\<close> result.
  \<open>PyThread_allocate_lock_ok\<close> says whether a lock allocation succeeds, and
  \<open>strdup_ok\<close> whether \<^verbatim>\<open>strdup\<close> gets the memory for its copy.
  \<open>PyUnicode_AsUTF8\<close> gives the bytes of the UTF-8 buffer inside the object.
\<close>

record pyenv =
  getpid :: int
  PyThread_allocate_lock_ok :: bool
  PyImport_ImportModule :: "string \<Rightarrow> pyobj option"
  PyModule_GetDict :: "pyobj \<Rightarrow> pyobj option"
  PyDict_GetItemString :: "pyobj \<Rightarrow> string \<Rightarrow> pyobj option"
  PyCallable_Check :: "pyobj \<Rightarrow> bool"
  PyUnicode_FromString :: "string \<Rightarrow> pyobj option"
  PyTuple_Pack :: "pyobj \<Rightarrow> pyobj option"
  PyObject_CallObject :: "pyobj \<Rightarrow> pyobj \<Rightarrow> pyobj option"
  PyUnicode_AsUTF8 :: "pyobj \<Rightarrow> string option"
  strdup_ok :: bool

text \<open>
  The globals of the file (the \<open>g_\<close> fields, with the C types: the flags are
  \<^verbatim>\<open>int\<close>, a lock pointer is \<^verbatim>\<open>NULL\<close> or a lock that is held or free), and what the
  file's calls change outside it:
  \<^item> \<open>py_is_initialized\<close>: what \<^verbatim>\<open>Py_IsInitialized()\<close> answers;
  \<^item> \<open>py_initialize_calls\<close>: how often \<^verbatim>\<open>Py_Initialize()\<close> has run;
  \<^item> \<open>gil_depth\<close>: the nesting of \<^verbatim>\<open>PyGILState_Ensure\<close> brackets;
  \<^item> \<open>c_refs\<close>: for each object, the references this file owns on it (a new
    reference and \<^verbatim>\<open>Py_INCREF\<close> add one, \<^verbatim>\<open>Py_DECREF\<close> takes one away);
  \<^item> \<open>py_calls\<close>: the \<^verbatim>\<open>PyObject_CallObject\<close> invocations made, in order;
  \<^item> \<open>c_stdout\<close>: the \<^verbatim>\<open>printf\<close> lines, each a format with its arguments;
  \<^item> \<open>py_err_prints\<close>: how often \<^verbatim>\<open>PyErr_Print()\<close> has run;
  \<^item> \<open>c_heap\<close>: the blocks \<^verbatim>\<open>strdup\<close> has allocated, each with the C string in it;
    block \<open>b\<close> is the \<open>b\<close>-th allocation. Nothing in the file frees a block: a
    returned block is the caller's.
\<close>

record cstate =
  g_chat_template_module :: "pyobj option"
  g_render_jinja_template_func :: "pyobj option"
  g_get_model_chat_template_func :: "pyobj option"
  g_initialized :: int
  g_python_initialized :: int
  g_process_initialized :: int
  g_finalized :: int
  g_init_pid :: int
  g_init_lock :: "bool option"
  g_python_init_lock :: "bool option"
  py_is_initialized :: bool
  py_initialize_calls :: nat
  gil_depth :: nat
  c_refs :: "pyobj \<Rightarrow> int"
  py_calls :: "(pyobj \<times> pyobj) list"
  c_stdout :: "(string \<times> int list) list"
  py_err_prints :: nat
  c_heap :: "string list"

text \<open>The state at process start: the static initialisers of the file.\<close>

definition initial_state :: cstate where
  "initial_state =
     \<lparr> g_chat_template_module = None,
       g_render_jinja_template_func = None,
       g_get_model_chat_template_func = None,
       g_initialized = 0,
       g_python_initialized = 0,
       g_process_initialized = 0,
       g_finalized = 0,
       g_init_pid = 0,
       g_init_lock = None,
       g_python_init_lock = None,
       py_is_initialized = False,
       py_initialize_calls = 0,
       gil_depth = 0,
       c_refs = (\<lambda>_. 0),
       py_calls = [],
       c_stdout = [],
       py_err_prints = 0,
       c_heap = [] \<rparr>"

text \<open>
  A \<^verbatim>\<open>char*\<close> points into a block that \<^verbatim>\<open>strdup\<close> allocated, or into the UTF-8 buffer
  that the interpreter keeps inside a string object (what \<^verbatim>\<open>PyUnicode_AsUTF8\<close> returns:
  memory of the interpreter, gone with the object).
\<close>

datatype char_ptr = Block nat | Utf8_of pyobj

text \<open>
  A call that returns a \<^verbatim>\<open>char*\<close> either returns (\<^verbatim>\<open>NULL\<close> is \<open>None\<close>) with the
  state it leaves, or hands a \<^verbatim>\<open>NULL\<close> callable to \<^verbatim>\<open>PyObject_CallObject\<close>, which
  reads the callable's type through the pointer: \<open>Fault\<close>.
\<close>

datatype call_outcome = Fault | Returned "char_ptr option" cstate

subsection \<open>The primitives the file calls\<close>

definition printf :: "string \<Rightarrow> int list \<Rightarrow> cstate \<Rightarrow> cstate" where
  "printf fmt args s = s\<lparr>c_stdout := c_stdout s @ [(fmt, args)]\<rparr>"

definition PyErr_Print :: "cstate \<Rightarrow> cstate" where
  "PyErr_Print s = s\<lparr>py_err_prints := Suc (py_err_prints s)\<rparr>"

definition Py_INCREF :: "pyobj \<Rightarrow> cstate \<Rightarrow> cstate" where
  "Py_INCREF ob s = s\<lparr>c_refs := (c_refs s)(ob := c_refs s ob + 1)\<rparr>"

definition Py_DECREF :: "pyobj \<Rightarrow> cstate \<Rightarrow> cstate" where
  "Py_DECREF ob s = s\<lparr>c_refs := (c_refs s)(ob := c_refs s ob - 1)\<rparr>"

text \<open>\<^verbatim>\<open>Py_XDECREF\<close> does nothing on \<^verbatim>\<open>NULL\<close>.\<close>

definition Py_XDECREF :: "pyobj option \<Rightarrow> cstate \<Rightarrow> cstate" where
  "Py_XDECREF p s = (case p of None \<Rightarrow> s | Some ob \<Rightarrow> Py_DECREF ob s)"

text \<open>A call that returns a new reference hands its caller one reference to own.\<close>

definition new_reference :: "pyobj \<Rightarrow> cstate \<Rightarrow> cstate" where
  "new_reference ob s = Py_INCREF ob s"

definition PyGILState_Ensure :: "cstate \<Rightarrow> cstate" where
  "PyGILState_Ensure s = s\<lparr>gil_depth := Suc (gil_depth s)\<rparr>"

definition PyGILState_Release :: "cstate \<Rightarrow> cstate" where
  "PyGILState_Release s = s\<lparr>gil_depth := gil_depth s - 1\<rparr>"

text \<open>
  \<^verbatim>\<open>Py_Initialize()\<close> starts the interpreter and leaves the calling thread holding the
  GIL; \<^verbatim>\<open>PyEval_InitThreads()\<close> changes nothing modelled here;
  \<^verbatim>\<open>PyEval_ReleaseThread(PyThreadState_Get())\<close> gives the GIL back.
\<close>

definition Py_Initialize :: "cstate \<Rightarrow> cstate" where
  "Py_Initialize s =
     s\<lparr>py_is_initialized := True,
       py_initialize_calls := Suc (py_initialize_calls s),
       gil_depth := Suc (gil_depth s)\<rparr>"

definition PyEval_ReleaseThread :: "cstate \<Rightarrow> cstate" where
  "PyEval_ReleaseThread s = s\<lparr>gil_depth := gil_depth s - 1\<rparr>"

text \<open>
  \<^verbatim>\<open>PyThread_acquire_lock(lock, NOWAIT_LOCK)\<close> on a lock that is held (\<open>True\<close>) or
  free: it never waits; it answers 1 and holds the lock when the lock was free, and
  answers 0 and changes nothing when it was held.
\<close>

definition PyThread_acquire_lock_NOWAIT :: "bool \<Rightarrow> int \<times> bool" where
  "PyThread_acquire_lock_NOWAIT held = (if held then (0, held) else (1, True))"

definition PyThread_release_lock :: "bool \<Rightarrow> bool" where
  "PyThread_release_lock held = False"

text \<open>The C string at the start of a buffer: the bytes before the first NUL.\<close>

definition c_string :: "string \<Rightarrow> string" where
  "c_string bytes = takeWhile (\<lambda>c. c \<noteq> CHR 0x00) bytes"

text \<open>
  \<^verbatim>\<open>strdup\<close> on a buffer with these bytes: it allocates a new block, copies the C
  string into it and returns the block; it returns \<^verbatim>\<open>NULL\<close> and changes nothing when it
  gets no memory.
\<close>

definition strdup :: "pyenv \<Rightarrow> string \<Rightarrow> cstate \<Rightarrow> char_ptr option \<times> cstate" where
  "strdup env bytes s =
     (if strdup_ok env
      then (Some (Block (length (c_heap s))), s\<lparr>c_heap := c_heap s @ [c_string bytes]\<rparr>)
      else (None, s))"

subsection \<open>Py\_InitializeGo\<close>

text \<open>
  The allocation of \<open>g_python_init_lock\<close> when it is still \<^verbatim>\<open>NULL\<close>; \<open>None\<close> when
  the allocation fails.
\<close>

definition ensure_python_init_lock :: "pyenv \<Rightarrow> cstate \<Rightarrow> cstate option" where
  "ensure_python_init_lock env s =
     (case g_python_init_lock s of
        Some _ \<Rightarrow> Some s
      | None \<Rightarrow>
          if PyThread_allocate_lock_ok env
          then Some (s\<lparr>g_python_init_lock := Some False\<rparr>)
          else None)"

text \<open>The source calls the acquisition as a statement: its answer is dropped.\<close>

definition acquire_python_init_lock :: "cstate \<Rightarrow> cstate" where
  "acquire_python_init_lock s =
     s\<lparr>g_python_init_lock :=
         map_option (\<lambda>held. snd (PyThread_acquire_lock_NOWAIT held)) (g_python_init_lock s)\<rparr>"

definition release_python_init_lock :: "cstate \<Rightarrow> cstate" where
  "release_python_init_lock s =
     s\<lparr>g_python_init_lock := map_option PyThread_release_lock (g_python_init_lock s)\<rparr>"

definition Py_InitializeGo :: "pyenv \<Rightarrow> cstate \<Rightarrow> int \<times> cstate" where
  "Py_InitializeGo env s =
     (if g_process_initialized s \<noteq> 0 then
        (if g_init_pid s \<noteq> getpid env then
           (0, printf ''[C] Py_InitializeGo WARNING - Different PID trying to initialize (init_pid: %d, current_pid: %d)''
                 [g_init_pid s, getpid env] s)
         else
           (0, printf ''[C] Py_InitializeGo - Already initialized in this process (PID: %d)''
                 [getpid env] s))
      else
        (case ensure_python_init_lock env s of
           None \<Rightarrow>
             (- 1, printf ''[C] Py_InitializeGo ERROR - Failed to allocate Python init lock'' [] s)
         | Some s1 \<Rightarrow>
             let s2 = acquire_python_init_lock s1 in
             if g_python_initialized s2 \<noteq> 0 then
               (0, release_python_init_lock
                     (printf ''[C] Py_InitializeGo - Python already initialized globally'' [] s2))
             else
               let s3 = (if \<not> py_is_initialized s2
                         then PyEval_ReleaseThread (Py_Initialize s2)
                         else s2);
                   s4 = s3\<lparr>g_python_initialized := 1,
                           g_process_initialized := 1,
                           g_init_pid := getpid env\<rparr>
               in (0, release_python_init_lock s4)))"

subsection \<open>Py\_FinalizeGo\<close>

text \<open>The three blocks of the function after its guard, in the order of the source.\<close>

definition finalize_mark :: "cstate \<Rightarrow> cstate" where
  "finalize_mark s = s\<lparr>g_finalized := 1\<rparr>"

definition release_cached_handles :: "cstate \<Rightarrow> cstate" where
  "release_cached_handles s =
     (let s1 = (case g_render_jinja_template_func s of
                  None \<Rightarrow> s
                | Some f \<Rightarrow> (Py_DECREF f s)\<lparr>g_render_jinja_template_func := None\<rparr>);
          s2 = (case g_get_model_chat_template_func s1 of
                  None \<Rightarrow> s1
                | Some f \<Rightarrow> (Py_DECREF f s1)\<lparr>g_get_model_chat_template_func := None\<rparr>);
          s3 = (case g_chat_template_module s2 of
                  None \<Rightarrow> s2
                | Some m \<Rightarrow> (Py_DECREF m s2)\<lparr>g_chat_template_module := None\<rparr>)
      in s3)"

definition finalize_reset :: "cstate \<Rightarrow> cstate" where
  "finalize_reset s =
     s\<lparr>g_python_initialized := 0, g_process_initialized := 0, g_initialized := 0\<rparr>"

definition Py_FinalizeGo :: "cstate \<Rightarrow> cstate" where
  "Py_FinalizeGo s =
     (if g_finalized s \<noteq> 0 then
        printf ''[C] Py_FinalizeGo - Already finalized, skipping'' [] s
      else finalize_reset (release_cached_handles (finalize_mark s)))"

subsection \<open>Py\_InitChatTemplateModule\<close>

definition ensure_init_lock :: "pyenv \<Rightarrow> cstate \<Rightarrow> cstate option" where
  "ensure_init_lock env s =
     (case g_init_lock s of
        Some _ \<Rightarrow> Some s
      | None \<Rightarrow>
          if PyThread_allocate_lock_ok env
          then Some (s\<lparr>g_init_lock := Some False\<rparr>)
          else None)"

definition acquire_init_lock :: "cstate \<Rightarrow> cstate" where
  "acquire_init_lock s =
     s\<lparr>g_init_lock :=
         map_option (\<lambda>held. snd (PyThread_acquire_lock_NOWAIT held)) (g_init_lock s)\<rparr>"

definition release_init_lock :: "cstate \<Rightarrow> cstate" where
  "release_init_lock s =
     s\<lparr>g_init_lock := map_option PyThread_release_lock (g_init_lock s)\<rparr>"

text \<open>
  The part of the function that runs with the GIL: the import and the two lookups.
  Each global is assigned before its check, as in the source, and an error return
  leaves what was assigned.
\<close>

definition resolve_entry_points :: "pyenv \<Rightarrow> cstate \<Rightarrow> int \<times> cstate" where
  "resolve_entry_points env s =
     (let imported = PyImport_ImportModule env ''render_jinja_template_wrapper'';
          s1 = s\<lparr>g_chat_template_module := imported\<rparr>
      in case imported of
        None \<Rightarrow>
          (- 1, release_init_lock (PyGILState_Release (PyErr_Print
                  (printf ''[C] Py_InitChatTemplateModule ERROR - Failed to import render_jinja_template_wrapper module'' [] s1))))
      | Some m \<Rightarrow>
          let s2 = new_reference m s1 in
          case PyModule_GetDict env m of
            None \<Rightarrow>
              (- 1, release_init_lock (PyGILState_Release
                      (printf ''[C] Py_InitChatTemplateModule ERROR - Failed to get module dictionary'' [] s2)))
          | Some module_dict \<Rightarrow>
              let render = PyDict_GetItemString env module_dict ''render_jinja_template'';
                  s3 = s2\<lparr>g_render_jinja_template_func := render\<rparr>;
                  render_failed =
                    (- 1, release_init_lock (PyGILState_Release
                            (printf ''[C] Py_InitChatTemplateModule ERROR - render_jinja_template function not found or not callable'' [] s3)))
              in case render of
                None \<Rightarrow> render_failed
              | Some render_func \<Rightarrow>
                  if \<not> PyCallable_Check env render_func then render_failed
                  else
                    let s4 = Py_INCREF render_func s3;
                        lookup = PyDict_GetItemString env module_dict ''get_model_chat_template'';
                        s5 = s4\<lparr>g_get_model_chat_template_func := lookup\<rparr>;
                        lookup_failed =
                          (- 1, release_init_lock (PyGILState_Release
                                  (printf ''[C] Py_InitChatTemplateModule ERROR - get_model_chat_template function not found or not callable'' [] s5)))
                    in case lookup of
                      None \<Rightarrow> lookup_failed
                    | Some lookup_func \<Rightarrow>
                        if \<not> PyCallable_Check env lookup_func then lookup_failed
                        else
                          let s6 = Py_INCREF lookup_func s5;
                              s7 = PyGILState_Release s6;
                              s8 = s7\<lparr>g_initialized := 1\<rparr>
                          in (0, release_init_lock s8))"

definition Py_InitChatTemplateModule :: "pyenv \<Rightarrow> cstate \<Rightarrow> int \<times> cstate" where
  "Py_InitChatTemplateModule env s =
     (case ensure_init_lock env s of
        None \<Rightarrow>
          (- 1, printf ''[C] Py_InitChatTemplateModule ERROR - Failed to allocate module init lock'' [] s)
      | Some s1 \<Rightarrow>
          let s2 = acquire_init_lock s1 in
          if g_initialized s2 \<noteq> 0 then
            (0, release_init_lock
                  (printf ''[C] Py_InitChatTemplateModule - Already initialized globally, returning'' [] s2))
          else if g_python_initialized s2 = 0 then
            (- 1, release_init_lock
                    (printf ''[C] Py_InitChatTemplateModule ERROR - Python not initialized'' [] s2))
          else resolve_entry_points env (PyGILState_Ensure s2))"

subsection \<open>The two calls\<close>

text \<open>
  \<^verbatim>\<open>Py_CallRenderJinjaTemplateInternal\<close>. Its first test asks the interpreter
  (\<^verbatim>\<open>Py_IsInitialized()\<close>), not the flag of this file, and nothing tests
  \<open>g_render_jinja_template_func\<close> before it is passed to \<^verbatim>\<open>PyObject_CallObject\<close>.
  Nothing tests what \<^verbatim>\<open>strdup\<close> returns either: its \<^verbatim>\<open>NULL\<close> is returned as it is.
\<close>

definition Py_CallRenderJinjaTemplateInternal ::
    "pyenv \<Rightarrow> cstate \<Rightarrow> string option \<Rightarrow> call_outcome" where
  "Py_CallRenderJinjaTemplateInternal env s json_request =
     (if \<not> py_is_initialized s then
        Returned None
          (printf ''[C] Py_CallRenderJinjaTemplateInternal ERROR - Python interpreter not initialized'' [] s)
      else case json_request of
        None \<Rightarrow>
          Returned None (printf ''[C] Py_CallRenderJinjaTemplateInternal ERROR - Input is NULL'' [] s)
      | Some request \<Rightarrow>
          let s1 = PyGILState_Ensure s in
          case PyUnicode_FromString env request of
            None \<Rightarrow>
              Returned None (PyGILState_Release
                (printf ''[C] Py_CallRenderJinjaTemplateInternal ERROR - Failed to create Python string'' [] s1))
          | Some py_json \<Rightarrow>
              let s2 = new_reference py_json s1 in
              case PyTuple_Pack env py_json of
                None \<Rightarrow>
                  Returned None (PyGILState_Release (Py_DECREF py_json
                    (printf ''[C] Py_CallRenderJinjaTemplateInternal ERROR - Failed to create args tuple'' [] s2)))
              | Some args \<Rightarrow>
                  let s3 = new_reference args s2 in
                  case g_render_jinja_template_func s3 of
                    None \<Rightarrow> Fault
                  | Some func \<Rightarrow>
                      let py_result = PyObject_CallObject env func args;
                          s4 = s3\<lparr>py_calls := py_calls s3 @ [(func, args)]\<rparr>;
                          s5 = Py_DECREF py_json (Py_DECREF args s4)
                      in case py_result of
                        None \<Rightarrow>
                          Returned None (PyGILState_Release (PyErr_Print
                            (printf ''[C] Py_CallRenderJinjaTemplateInternal ERROR - Python function returned NULL'' [] s5)))
                      | Some res \<Rightarrow>
                          let s6 = new_reference res s5 in
                          case PyUnicode_AsUTF8 env res of
                            None \<Rightarrow>
                              Returned None (PyGILState_Release (Py_DECREF res
                                (printf ''[C] Py_CallRenderJinjaTemplateInternal ERROR - Failed to convert result to C string'' [] s6)))
                          | Some str \<Rightarrow>
                              let (cresult, s7) = strdup env str s6
                              in Returned cresult (PyGILState_Release (Py_DECREF res s7)))"

text \<open>
  \<^verbatim>\<open>Py_CallRenderJinjaTemplate\<close>: one call of the internal function; a result that is
  not \<^verbatim>\<open>NULL\<close> is returned, and otherwise \<^verbatim>\<open>NULL\<close> is.
\<close>

definition Py_CallRenderJinjaTemplate ::
    "pyenv \<Rightarrow> cstate \<Rightarrow> string option \<Rightarrow> call_outcome" where
  "Py_CallRenderJinjaTemplate env s json_request =
     (case Py_CallRenderJinjaTemplateInternal env s json_request of
        Fault \<Rightarrow> Fault
      | Returned result s' \<Rightarrow>
          if result \<noteq> None then Returned result s' else Returned None s')"

text \<open>
  \<^verbatim>\<open>Py_CallGetModelChatTemplateInternal\<close>. It tests the flag of this file, then the
  cached function (present, callable), then the input.
\<close>

definition Py_CallGetModelChatTemplateInternal ::
    "pyenv \<Rightarrow> cstate \<Rightarrow> string option \<Rightarrow> call_outcome" where
  "Py_CallGetModelChatTemplateInternal env s json_request =
     (if g_python_initialized s = 0 then
        Returned None
          (printf ''[C] Py_CallGetModelChatTemplateInternal ERROR - Python not initialized'' [] s)
      else case g_get_model_chat_template_func s of
        None \<Rightarrow>
          Returned None
            (printf ''[C] Py_CallGetModelChatTemplateInternal ERROR - Cached function is NULL'' [] s)
      | Some func \<Rightarrow>
          if \<not> PyCallable_Check env func then
            Returned None
              (printf ''[C] Py_CallGetModelChatTemplateInternal ERROR - Cached function is not callable (corrupted?)'' [] s)
          else case json_request of
            None \<Rightarrow>
              Returned None
                (printf ''[C] Py_CallGetModelChatTemplateInternal ERROR - Input is NULL'' [] s)
          | Some request \<Rightarrow>
              let s1 = PyGILState_Ensure s in
              case PyUnicode_FromString env request of
                None \<Rightarrow>
                  Returned None (PyGILState_Release
                    (printf ''[C] Py_CallGetModelChatTemplateInternal ERROR - Failed to create Python string'' [] s1))
              | Some py_json \<Rightarrow>
                  let s2 = new_reference py_json s1 in
                  case PyTuple_Pack env py_json of
                    None \<Rightarrow>
                      Returned None (PyGILState_Release (Py_DECREF py_json
                        (printf ''[C] Py_CallGetModelChatTemplateInternal ERROR - Failed to create args tuple'' [] s2)))
                  | Some args \<Rightarrow>
                      let s3 = new_reference args s2;
                          py_result = PyObject_CallObject env func args;
                          s4 = s3\<lparr>py_calls := py_calls s3 @ [(func, args)]\<rparr>;
                          s5 = Py_DECREF py_json (Py_DECREF args s4)
                      in case py_result of
                        None \<Rightarrow>
                          Returned None (PyGILState_Release (PyErr_Print
                            (printf ''[C] Py_CallGetModelChatTemplateInternal ERROR - Python function returned NULL'' [] s5)))
                      | Some res \<Rightarrow>
                          let s6 = new_reference res s5 in
                          case PyUnicode_AsUTF8 env res of
                            None \<Rightarrow>
                              Returned None (PyGILState_Release (Py_DECREF res
                                (printf ''[C] Py_CallGetModelChatTemplateInternal ERROR - Failed to convert result to C string'' [] s6)))
                          | Some str \<Rightarrow>
                              let (cresult, s7) = strdup env str s6
                              in Returned cresult (PyGILState_Release (Py_DECREF res s7)))"

definition Py_CallGetModelChatTemplate ::
    "pyenv \<Rightarrow> cstate \<Rightarrow> string option \<Rightarrow> call_outcome" where
  "Py_CallGetModelChatTemplate env s json_request =
     (case Py_CallGetModelChatTemplateInternal env s json_request of
        Fault \<Rightarrow> Fault
      | Returned result s' \<Rightarrow>
          if result \<noteq> None then Returned result s' else Returned None s')"

subsection \<open>Py\_CleanupChatTemplateModule and Py\_ReinitializeGo\<close>

definition Py_CleanupChatTemplateModule :: "cstate \<Rightarrow> cstate" where
  "Py_CleanupChatTemplateModule s =
     (if g_initialized s \<noteq> 0 \<and> py_is_initialized s then
        let s1 = PyGILState_Ensure s;
            s2 = Py_XDECREF (g_render_jinja_template_func s1) s1;
            s3 = Py_XDECREF (g_get_model_chat_template_func s2) s2;
            s4 = Py_XDECREF (g_chat_template_module s3) s3;
            s5 = s4\<lparr>g_render_jinja_template_func := None,
                    g_get_model_chat_template_func := None,
                    g_chat_template_module := None,
                    g_initialized := 0\<rparr>
        in PyGILState_Release s5
      else s)"

text \<open>The first two blocks of \<^verbatim>\<open>Py_ReinitializeGo\<close>: the flags, then the handles.\<close>

definition reinitialize_reset :: "cstate \<Rightarrow> cstate" where
  "reinitialize_reset s =
     release_cached_handles
       (s\<lparr>g_initialized := 0, g_python_initialized := 0, g_process_initialized := 0\<rparr>)"

definition Py_ReinitializeGo :: "pyenv \<Rightarrow> cstate \<Rightarrow> int \<times> cstate" where
  "Py_ReinitializeGo env s =
     (let s1 = reinitialize_reset s;
          (result, s2) = Py_InitializeGo env s1
      in if result \<noteq> 0 then
           (result, printf ''[C] Py_ReinitializeGo ERROR - Failed to re-initialize Python'' [] s2)
         else
           let (result', s3) = Py_InitChatTemplateModule env s2
           in if result' \<noteq> 0 then
                (result', printf ''[C] Py_ReinitializeGo ERROR - Failed to re-initialize chat template module'' [] s3)
              else (0, s3))"

subsection \<open>Sequences of calls\<close>

text \<open>\<open>n\<close> calls of \<^verbatim>\<open>Py_InitializeGo\<close> one after the other in one process, with their results.\<close>

fun initialize_n :: "pyenv \<Rightarrow> nat \<Rightarrow> cstate \<Rightarrow> int list \<times> cstate" where
  "initialize_n env 0 s = ([], s)"
| "initialize_n env (Suc n) s =
     (let (r, s1) = Py_InitializeGo env s;
          (rs, s2) = initialize_n env n s1
      in (r # rs, s2))"

text \<open>
  The operations of the file on the interpreter, the cache and the two entry points, and
  a run of them (\<^verbatim>\<open>Py_ClearCaches\<close> and the one-line \<^verbatim>\<open>Go_\<close> wrappers are not part of
  the model). A run ends (\<open>None\<close>) where a call faults; each operation comes with what
  the interpreter answers during it.
\<close>

datatype operation =
    Initialize
  | Finalize
  | InitCache
  | CallRender "string option"
  | CallLookup "string option"
  | Cleanup
  | Reinitialize

fun perform :: "pyenv \<Rightarrow> operation \<Rightarrow> cstate \<Rightarrow> cstate option" where
  "perform env Initialize s = Some (snd (Py_InitializeGo env s))"
| "perform env Finalize s = Some (Py_FinalizeGo s)"
| "perform env InitCache s = Some (snd (Py_InitChatTemplateModule env s))"
| "perform env (CallRender text) s =
     (case Py_CallRenderJinjaTemplate env s text of Fault \<Rightarrow> None | Returned _ s' \<Rightarrow> Some s')"
| "perform env (CallLookup text) s =
     (case Py_CallGetModelChatTemplate env s text of Fault \<Rightarrow> None | Returned _ s' \<Rightarrow> Some s')"
| "perform env Cleanup s = Some (Py_CleanupChatTemplateModule s)"
| "perform env Reinitialize s = Some (snd (Py_ReinitializeGo env s))"

fun perform_all :: "(pyenv \<times> operation) list \<Rightarrow> cstate \<Rightarrow> cstate option" where
  "perform_all [] s = Some s"
| "perform_all ((env, op) # rest) s =
     (case perform env op s of None \<Rightarrow> None | Some s' \<Rightarrow> perform_all rest s')"

subsection \<open>Observations on the outcome of a call\<close>

text \<open>
  The C string a pointer leads to once a call has returned: the contents of the block;
  nothing for a pointer into a buffer of the interpreter, which the caller does not own.
\<close>

definition c_string_at :: "cstate \<Rightarrow> char_ptr \<Rightarrow> string option" where
  "c_string_at s p =
     (case p of
        Block b \<Rightarrow> (if b < length (c_heap s) then Some (c_heap s ! b) else None)
      | Utf8_of ob \<Rightarrow> None)"

text \<open>The text a call has returned to its caller, if any.\<close>

definition returned_text :: "call_outcome \<Rightarrow> string option" where
  "returned_text out =
     (case out of
        Fault \<Rightarrow> None
      | Returned None _ \<Rightarrow> None
      | Returned (Some p) s' \<Rightarrow> c_string_at s' p)"

text \<open>How many invocations of a callable a call that started in \<open>s\<close> has made.\<close>

definition calls_made :: "cstate \<Rightarrow> call_outcome \<Rightarrow> nat" where
  "calls_made s out =
     (case out of Fault \<Rightarrow> 0 | Returned _ s' \<Rightarrow> length (py_calls s') - length (py_calls s))"



text \<open>
  A call that started in \<open>s\<close> got as far as \<^verbatim>\<open>PyObject_CallObject\<close>: it faulted there,
  or it recorded an invocation.
\<close>

definition reaches_invoke :: "cstate \<Rightarrow> call_outcome \<Rightarrow> bool" where
  "reaches_invoke s out =
     (case out of Fault \<Rightarrow> True | Returned _ s' \<Rightarrow> length (py_calls s) < length (py_calls s'))"

text \<open>
  The procedure of a call in the words of the specification, for comparison with the
  code. First the steps inside the interpreter: encode the request, package it as the
  sole argument, invoke the callable, decode what it returned into the native text; no
  result as soon as one step gives none.
\<close>

definition native_result :: "pyenv \<Rightarrow> pyobj \<Rightarrow> string \<Rightarrow> string option" where
  "native_result env func request =
     (case PyUnicode_FromString env request of
        None \<Rightarrow> None
      | Some encoded \<Rightarrow>
          (case PyTuple_Pack env encoded of
             None \<Rightarrow> None
           | Some args \<Rightarrow>
               (case PyObject_CallObject env func args of
                  None \<Rightarrow> None
                | Some res \<Rightarrow> PyUnicode_AsUTF8 env res)))"

text \<open>Then the owned copy of the native text, if the copy can be made.\<close>

definition call_procedure :: "pyenv \<Rightarrow> pyobj \<Rightarrow> string \<Rightarrow> string option" where
  "call_procedure env func request =
     (case native_result env func request of
        None \<Rightarrow> None
      | Some bytes \<Rightarrow> if strdup_ok env then Some (c_string bytes) else None)"

text \<open>
  The references \<^verbatim>\<open>Py_FinalizeGo\<close> and \<^verbatim>\<open>Py_ReinitializeGo\<close> give up on an object: one
  for each of the three globals that points to it.
\<close>

definition cached_references :: "cstate \<Rightarrow> pyobj \<Rightarrow> int" where
  "cached_references s ob =
     (if g_render_jinja_template_func s = Some ob then 1 else 0) +
     (if g_get_model_chat_template_func s = Some ob then 1 else 0) +
     (if g_chat_template_module s = Some ob then 1 else 0)"

subsection \<open>A concrete interpreter for the examples\<close>

text \<open>
  Object 1 is the module \<^verbatim>\<open>render_jinja_template_wrapper\<close>, 2 its dictionary, 3 and 4 its
  two functions; every text encodes to object 10, which packs into the tuple 11; the
  functions return the objects 12 and 13, which decode to the texts below.
\<close>

definition example_env :: pyenv where
  "example_env =
     \<lparr> getpid = 4242,
       PyThread_allocate_lock_ok = True,
       PyImport_ImportModule =
         (\<lambda>name. if name = ''render_jinja_template_wrapper'' then Some 1 else None),
       PyModule_GetDict = (\<lambda>m. if m = 1 then Some 2 else None),
       PyDict_GetItemString =
         (\<lambda>d key. if d = 2 \<and> key = ''render_jinja_template'' then Some 3
                  else if d = 2 \<and> key = ''get_model_chat_template'' then Some 4
                  else None),
       PyCallable_Check = (\<lambda>ob. ob = 3 \<or> ob = 4),
       PyUnicode_FromString = (\<lambda>text. Some 10),
       PyTuple_Pack = (\<lambda>ob. if ob = 10 then Some 11 else None),
       PyObject_CallObject =
         (\<lambda>func args. if func = 3 \<and> args = 11 then Some 12
                      else if func = 4 \<and> args = 11 then Some 13
                      else None),
       PyUnicode_AsUTF8 =
         (\<lambda>ob. if ob = 12 then Some ''rendered''
               else if ob = 13 then Some ''template''
               else None),
       strdup_ok = True \<rparr>"

text \<open>The module without its second function.\<close>

definition env_without_lookup :: pyenv where
  "env_without_lookup =
     example_env\<lparr>PyDict_GetItemString :=
       (\<lambda>d key. if d = 2 \<and> key = ''render_jinja_template'' then Some 3 else None)\<rparr>"

text \<open>The module with a \<^verbatim>\<open>render_jinja_template\<close> that is not callable.\<close>

definition env_uncallable_render :: pyenv where
  "env_uncallable_render = example_env\<lparr>PyCallable_Check := (\<lambda>ob. ob = 4)\<rparr>"

text \<open>An interpreter in which the import of the module fails.\<close>

definition env_without_module :: pyenv where
  "env_without_module = example_env\<lparr>PyImport_ImportModule := (\<lambda>name. None)\<rparr>"

text \<open>An interpreter in which no lock can be allocated, and one that cannot encode.\<close>

definition env_without_lock :: pyenv where
  "env_without_lock = example_env\<lparr>PyThread_allocate_lock_ok := False\<rparr>"

definition env_without_encoding :: pyenv where
  "env_without_encoding = example_env\<lparr>PyUnicode_FromString := (\<lambda>text. None)\<rparr>"

text \<open>An interpreter during which \<^verbatim>\<open>strdup\<close> gets no memory.\<close>

definition env_without_memory :: pyenv where
  "env_without_memory = example_env\<lparr>strdup_ok := False\<rparr>"

text \<open>The states after a first \<^verbatim>\<open>Py_InitializeGo\<close>, and after the cache is filled too.\<close>

definition started_state :: cstate where
  "started_state = snd (Py_InitializeGo example_env initial_state)"

definition ready_state :: cstate where
  "ready_state = snd (Py_InitChatTemplateModule example_env started_state)"

text \<open>
  The shared state while a first caller of \<^verbatim>\<open>Py_InitializeGo\<close> is inside the body: it has
  found no flag set, has allocated the init lock and taken it, and has not assigned
  anything yet. And the same for a first caller of \<^verbatim>\<open>Py_InitChatTemplateModule\<close>, after
  \<^verbatim>\<open>Py_InitializeGo\<close>.
\<close>

definition initializer_inside :: cstate where
  "initializer_inside =
     (case ensure_python_init_lock example_env initial_state of
        None \<Rightarrow> initial_state
      | Some s1 \<Rightarrow> acquire_python_init_lock s1)"

definition cache_initializer_inside :: cstate where
  "cache_initializer_inside =
     (case ensure_init_lock example_env started_state of
        None \<Rightarrow> started_state
      | Some s1 \<Rightarrow> acquire_init_lock s1)"

section \<open>Properties\<close>

subsection \<open>Unfolding the model\<close>

lemmas prim_defs = printf_def PyErr_Print_def Py_INCREF_def Py_DECREF_def Py_XDECREF_def
  new_reference_def PyGILState_Ensure_def PyGILState_Release_def Py_Initialize_def
  PyEval_ReleaseThread_def PyThread_acquire_lock_NOWAIT_def PyThread_release_lock_def strdup_def
  c_string_def c_string_at_def

lemmas lock_defs = ensure_python_init_lock_def acquire_python_init_lock_def
  release_python_init_lock_def ensure_init_lock_def acquire_init_lock_def release_init_lock_def

lemmas init_defs = Py_InitializeGo_def Py_InitChatTemplateModule_def resolve_entry_points_def

lemmas call_defs = Py_CallRenderJinjaTemplate_def Py_CallRenderJinjaTemplateInternal_def
  Py_CallGetModelChatTemplate_def Py_CallGetModelChatTemplateInternal_def

lemmas finalize_defs = Py_FinalizeGo_def finalize_mark_def finalize_reset_def
  release_cached_handles_def

text \<open>The two example states, field by field.\<close>

lemma started_state_eq:
  "started_state =
     initial_state\<lparr>g_python_initialized := 1, g_process_initialized := 1, g_init_pid := 4242,
       g_python_init_lock := Some False, py_is_initialized := True, py_initialize_calls := 1\<rparr>"
  by (simp add: started_state_def Py_InitializeGo_def initial_state_def example_env_def
      prim_defs lock_defs Let_def)

lemma ready_state_eq:
  "ready_state =
     started_state\<lparr>g_chat_template_module := Some 1, g_render_jinja_template_func := Some 3,
       g_get_model_chat_template_func := Some 4, g_initialized := 1, g_init_lock := Some False,
       c_refs := (\<lambda>_. 0)(1 := 1, 3 := 1, 4 := 1)\<rparr>"
  by (simp add: ready_state_def started_state_eq Py_InitChatTemplateModule_def
      resolve_entry_points_def initial_state_def example_env_def prim_defs lock_defs Let_def)

subsection \<open>The wrappers of the two calls\<close>

text \<open>
  C3. \<^verbatim>\<open>Py_CallRenderJinjaTemplate\<close> and \<^verbatim>\<open>Py_CallGetModelChatTemplate\<close> are single
  pass-throughs: for every state and every input (\<^verbatim>\<open>NULL\<close> included) each returns exactly
  what one call of its internal function returns and leaves the state that call leaves,
  and it invokes the cached callable at most once, also when the attempt fails: there is
  no second attempt.
\<close>

theorem call_wrappers_single_pass_through:
  "Py_CallRenderJinjaTemplate env s text = Py_CallRenderJinjaTemplateInternal env s text \<and>
   Py_CallGetModelChatTemplate env s text = Py_CallGetModelChatTemplateInternal env s text \<and>
   calls_made s (Py_CallRenderJinjaTemplate env s text) \<le> 1 \<and>
   calls_made s (Py_CallGetModelChatTemplate env s text) \<le> 1"
proof -
  have r: "Py_CallRenderJinjaTemplate env s text = Py_CallRenderJinjaTemplateInternal env s text"
    by (simp add: Py_CallRenderJinjaTemplate_def split: call_outcome.split)
  have l: "Py_CallGetModelChatTemplate env s text = Py_CallGetModelChatTemplateInternal env s text"
    by (simp add: Py_CallGetModelChatTemplate_def split: call_outcome.split)
  have cr: "calls_made s (Py_CallRenderJinjaTemplateInternal env s text) \<le> 1"
    by (simp add: calls_made_def Py_CallRenderJinjaTemplateInternal_def prim_defs Let_def
        split: option.split)
  have cl: "calls_made s (Py_CallGetModelChatTemplateInternal env s text) \<le> 1"
    by (simp add: calls_made_def Py_CallGetModelChatTemplateInternal_def prim_defs Let_def
        split: option.split)
  show ?thesis using r l cr cl by simp
qed

subsection \<open>The interpreter outlives every operation\<close>

text \<open>
  No function of the file stops the interpreter: \<open>py_is_initialized\<close>, once true, stays
  true through every operation that returns.
\<close>

lemma initialize_alive: "py_is_initialized s \<Longrightarrow> py_is_initialized (snd (Py_InitializeGo env s))"
  by (auto simp: Py_InitializeGo_def prim_defs lock_defs Let_def split: option.splits)

lemma release_cached_handles_frame:
  "py_is_initialized (release_cached_handles s) = py_is_initialized s"
  "py_initialize_calls (release_cached_handles s) = py_initialize_calls s"
  "gil_depth (release_cached_handles s) = gil_depth s"
  "py_calls (release_cached_handles s) = py_calls s"
  "py_err_prints (release_cached_handles s) = py_err_prints s"
  "c_stdout (release_cached_handles s) = c_stdout s"
  "g_init_pid (release_cached_handles s) = g_init_pid s"
  "g_init_lock (release_cached_handles s) = g_init_lock s"
  "g_python_init_lock (release_cached_handles s) = g_python_init_lock s"
  "g_finalized (release_cached_handles s) = g_finalized s"
  "g_initialized (release_cached_handles s) = g_initialized s"
  "g_python_initialized (release_cached_handles s) = g_python_initialized s"
  "g_process_initialized (release_cached_handles s) = g_process_initialized s"
  by (simp_all add: release_cached_handles_def Py_DECREF_def Let_def split: option.split)

lemma release_cached_handles_handles:
  "g_render_jinja_template_func (release_cached_handles s) = None"
  "g_get_model_chat_template_func (release_cached_handles s) = None"
  "g_chat_template_module (release_cached_handles s) = None"
  by (simp_all add: release_cached_handles_def Py_DECREF_def Let_def split: option.split)

lemma release_cached_handles_refs:
  "c_refs (release_cached_handles s) ob = c_refs s ob - cached_references s ob"
  by (simp add: release_cached_handles_def Py_DECREF_def Let_def cached_references_def
      split: option.split)

lemma finalize_alive: "py_is_initialized (Py_FinalizeGo s) = py_is_initialized s"
  by (simp add: Py_FinalizeGo_def finalize_reset_def finalize_mark_def printf_def
      release_cached_handles_frame)

lemma ensure_init_lock_alive:
  "ensure_init_lock env s = Some s1 \<Longrightarrow> py_is_initialized s1 = py_is_initialized s"
  by (auto simp: ensure_init_lock_def split: option.splits if_splits)

lemma resolve_alive:
  "py_is_initialized (snd (resolve_entry_points env s)) = py_is_initialized s"
  by (simp add: resolve_entry_points_def prim_defs release_init_lock_def Let_def
      split: option.split)

lemma init_cache_alive:
  "py_is_initialized (snd (Py_InitChatTemplateModule env s)) = py_is_initialized s"
proof (cases "ensure_init_lock env s")
  case None
  then show ?thesis by (simp add: Py_InitChatTemplateModule_def printf_def)
next
  case (Some s1)
  then show ?thesis
    using ensure_init_lock_alive[OF Some]
    by (simp add: Py_InitChatTemplateModule_def resolve_alive Let_def printf_def
        release_init_lock_def acquire_init_lock_def PyGILState_Ensure_def)
qed

lemma cleanup_alive: "py_is_initialized (Py_CleanupChatTemplateModule s) = py_is_initialized s"
  by (simp add: Py_CleanupChatTemplateModule_def prim_defs Let_def split: option.split)

lemma render_alive:
  "Py_CallRenderJinjaTemplateInternal env s text = Returned r s' \<Longrightarrow>
   py_is_initialized s' = py_is_initialized s"
  by (auto simp: Py_CallRenderJinjaTemplateInternal_def prim_defs Let_def
      split: option.splits if_splits)

lemma lookup_alive:
  "Py_CallGetModelChatTemplateInternal env s text = Returned r s' \<Longrightarrow>
   py_is_initialized s' = py_is_initialized s"
  by (auto simp: Py_CallGetModelChatTemplateInternal_def prim_defs Let_def
      split: option.splits if_splits)

lemma reinitialize_reset_alive: "py_is_initialized (reinitialize_reset s) = py_is_initialized s"
  by (simp add: reinitialize_reset_def release_cached_handles_frame)

lemma reinitialize_alive:
  "py_is_initialized s \<Longrightarrow> py_is_initialized (snd (Py_ReinitializeGo env s))"
proof -
  assume a: "py_is_initialized s"
  have 1: "py_is_initialized (snd (Py_InitializeGo env (reinitialize_reset s)))"
    using a by (simp add: initialize_alive reinitialize_reset_alive)
  obtain r1 s2 where i: "Py_InitializeGo env (reinitialize_reset s) = (r1, s2)"
    by force
  obtain r2 s3 where c: "Py_InitChatTemplateModule env s2 = (r2, s3)"
    by force
  have 2: "py_is_initialized s2" using 1 i by simp
  have 3: "py_is_initialized s3" using init_cache_alive[of env s2] c 2 by simp
  show ?thesis
    using 2 3 by (simp add: Py_ReinitializeGo_def Let_def i c printf_def)
qed

lemma perform_alive:
  "py_is_initialized s \<Longrightarrow> perform env oper s = Some s' \<Longrightarrow> py_is_initialized s'"
proof (cases oper)
  case (CallRender req)
  assume "py_is_initialized s" "perform env oper s = Some s'"
  then show ?thesis using CallRender
    by (auto simp: Py_CallRenderJinjaTemplate_def split: call_outcome.splits if_splits
        dest: render_alive)
next
  case (CallLookup req)
  assume "py_is_initialized s" "perform env oper s = Some s'"
  then show ?thesis using CallLookup
    by (auto simp: Py_CallGetModelChatTemplate_def split: call_outcome.splits if_splits
        dest: lookup_alive)
qed (auto simp: initialize_alive finalize_alive init_cache_alive cleanup_alive reinitialize_alive)

lemma perform_all_alive:
  "py_is_initialized s \<Longrightarrow> perform_all ops s = Some s' \<Longrightarrow> py_is_initialized s'"
proof (induction ops arbitrary: s)
  case Nil
  then show ?case by simp
next
  case (Cons a ops)
  obtain env oper where a: "a = (env, oper)" by (cases a)
  from Cons.prems(2) a obtain s1 where
    s1: "perform env oper s = Some s1" and rest: "perform_all ops s1 = Some s'"
    by (auto split: option.splits)
  from perform_alive[OF Cons.prems(1) s1] have "py_is_initialized s1" .
  from Cons.IH[OF this rest] show ?case .
qed

text \<open>
  C8. \<^verbatim>\<open>Py_FinalizeGo\<close> does not shut the interpreter down: what \<^verbatim>\<open>Py_IsInitialized()\<close>
  answers, the number of interpreter starts, the GIL nesting and the record of
  invocations are the same after it as before; and when the interpreter was running
  before the call, it is still running after any later run of the operations above.
  Only the cached handles and the flags of the file are reset.
\<close>

theorem finalize_keeps_runtime_alive:
  "py_is_initialized (Py_FinalizeGo s) = py_is_initialized s \<and>
   py_initialize_calls (Py_FinalizeGo s) = py_initialize_calls s \<and>
   gil_depth (Py_FinalizeGo s) = gil_depth s \<and>
   py_calls (Py_FinalizeGo s) = py_calls s \<and>
   (\<forall>ops s'. py_is_initialized s \<and> perform_all ops (Py_FinalizeGo s) = Some s'
       \<longrightarrow> py_is_initialized s')"
proof -
  have frame: "py_is_initialized (Py_FinalizeGo s) = py_is_initialized s"
    "py_initialize_calls (Py_FinalizeGo s) = py_initialize_calls s"
    "gil_depth (Py_FinalizeGo s) = gil_depth s"
    "py_calls (Py_FinalizeGo s) = py_calls s"
    by (simp_all add: Py_FinalizeGo_def finalize_reset_def finalize_mark_def printf_def
        release_cached_handles_frame)
  have later: "\<forall>ops s'. py_is_initialized s \<and> perform_all ops (Py_FinalizeGo s) = Some s'
       \<longrightarrow> py_is_initialized s'"
    using perform_all_alive frame(1) by blast
  show ?thesis using frame later by simp
qed

theorem finalize_keeps_runtime_alive_witness:
  "py_is_initialized ready_state \<and>
   (\<exists>s'. perform_all [(example_env, Initialize), (example_env, InitCache),
                       (example_env, CallRender (Some ''{}''))]
            (Py_FinalizeGo ready_state) = Some s' \<and>
         py_is_initialized s')"
proof -
  let ?ops = "[(example_env, Initialize), (example_env, InitCache),
               (example_env, CallRender (Some ''{}''))]"
  have alive: "py_is_initialized ready_state"
    by (simp add: ready_state_eq started_state_eq initial_state_def)
  have "perform_all ?ops (Py_FinalizeGo ready_state) \<noteq> None"
    by (simp add: ready_state_eq started_state_eq initial_state_def example_env_def
        finalize_defs init_defs call_defs prim_defs lock_defs Let_def)
  then obtain s' where run: "perform_all ?ops (Py_FinalizeGo ready_state) = Some s'"
    by blast
  from finalize_keeps_runtime_alive[of ready_state] alive run
  have "py_is_initialized s'" by blast
  with alive run show ?thesis by blast
qed

subsection \<open>Py\_FinalizeGo\<close>

text \<open>
  C2, as stated, fails: \<^verbatim>\<open>Py_FinalizeGo\<close> never clears \<open>g_finalized\<close>. After a first
  finalisation of the filled cache the flag is 1, not 0; and a finalisation that follows
  a \<^verbatim>\<open>Py_ReinitializeGo\<close> is skipped, so the render handle of the refilled cache is
  still there after it.
\<close>

theorem finalize_leaves_finalized_set:
  "g_finalized (Py_FinalizeGo ready_state) = 1 \<and>
   g_render_jinja_template_func
     (Py_FinalizeGo (snd (Py_ReinitializeGo example_env (Py_FinalizeGo ready_state)))) = Some 3"
  by (simp add: ready_state_eq started_state_eq initial_state_def example_env_def
      Py_ReinitializeGo_def reinitialize_reset_def
      finalize_defs init_defs prim_defs lock_defs Let_def)

text \<open>
  C2, amended. \<^verbatim>\<open>Py_FinalizeGo\<close> is a latch. When \<open>g_finalized\<close> is 0 it sets
  \<open>g_finalized\<close> to 1 first, then releases each of the three cached handles that is
  present (one reference each) and clears it, then resets \<open>g_python_initialized\<close>,
  \<open>g_process_initialized\<close> and \<open>g_initialized\<close> to 0, printing nothing;
  \<open>g_finalized\<close> stays 1. In every state \<open>g_finalized\<close> is set after the call, and a
  second call changes nothing but the diagnostic line it prints.
\<close>

theorem finalize_latches:
  "g_finalized (Py_FinalizeGo s) \<noteq> 0 \<and>
   Py_FinalizeGo (Py_FinalizeGo s) =
     printf ''[C] Py_FinalizeGo - Already finalized, skipping'' [] (Py_FinalizeGo s) \<and>
   (g_finalized s = 0 \<longrightarrow>
      Py_FinalizeGo s = finalize_reset (release_cached_handles (finalize_mark s)) \<and>
      g_finalized (finalize_mark s) = 1 \<and>
      g_finalized (Py_FinalizeGo s) = 1 \<and>
      g_render_jinja_template_func (Py_FinalizeGo s) = None \<and>
      g_get_model_chat_template_func (Py_FinalizeGo s) = None \<and>
      g_chat_template_module (Py_FinalizeGo s) = None \<and>
      (\<forall>ob. c_refs (Py_FinalizeGo s) ob = c_refs s ob - cached_references s ob) \<and>
      g_python_initialized (Py_FinalizeGo s) = 0 \<and>
      g_process_initialized (Py_FinalizeGo s) = 0 \<and>
      g_initialized (Py_FinalizeGo s) = 0 \<and>
      c_stdout (Py_FinalizeGo s) = c_stdout s)"
proof -
  have set: "g_finalized (Py_FinalizeGo s) \<noteq> 0"
    by (simp add: Py_FinalizeGo_def finalize_reset_def finalize_mark_def printf_def
        release_cached_handles_frame)
  then have again: "Py_FinalizeGo (Py_FinalizeGo s) =
      printf ''[C] Py_FinalizeGo - Already finalized, skipping'' [] (Py_FinalizeGo s)"
    by (simp add: Py_FinalizeGo_def[of "Py_FinalizeGo s"])
  have first: "g_finalized s = 0 \<longrightarrow>
      Py_FinalizeGo s = finalize_reset (release_cached_handles (finalize_mark s)) \<and>
      g_finalized (finalize_mark s) = 1 \<and>
      g_finalized (Py_FinalizeGo s) = 1 \<and>
      g_render_jinja_template_func (Py_FinalizeGo s) = None \<and>
      g_get_model_chat_template_func (Py_FinalizeGo s) = None \<and>
      g_chat_template_module (Py_FinalizeGo s) = None \<and>
      (\<forall>ob. c_refs (Py_FinalizeGo s) ob = c_refs s ob - cached_references s ob) \<and>
      g_python_initialized (Py_FinalizeGo s) = 0 \<and>
      g_process_initialized (Py_FinalizeGo s) = 0 \<and>
      g_initialized (Py_FinalizeGo s) = 0 \<and>
      c_stdout (Py_FinalizeGo s) = c_stdout s"
    by (simp add: Py_FinalizeGo_def finalize_reset_def finalize_mark_def
        release_cached_handles_frame release_cached_handles_handles release_cached_handles_refs
        cached_references_def)
  show ?thesis using set again first by blast
qed

theorem finalize_latches_witness:
  "g_finalized ready_state = 0 \<and>
   g_finalized (Py_FinalizeGo ready_state) = 1 \<and>
   g_render_jinja_template_func (Py_FinalizeGo ready_state) = None \<and>
   c_refs (Py_FinalizeGo ready_state) 3 = 0 \<and>
   g_initialized (Py_FinalizeGo ready_state) = 0"
proof -
  have fresh: "g_finalized ready_state = 0"
    by (simp add: ready_state_eq started_state_eq initial_state_def)
  have refs: "c_refs ready_state 3 - cached_references ready_state 3 = 0"
    by (simp add: ready_state_eq started_state_eq initial_state_def cached_references_def)
  have counted: "c_refs (Py_FinalizeGo ready_state) 3 =
      c_refs ready_state 3 - cached_references ready_state 3"
    using finalize_latches[of ready_state] fresh by blast
  have released: "c_refs (Py_FinalizeGo ready_state) 3 = 0"
    using counted refs by simp
  have rest: "g_finalized (Py_FinalizeGo ready_state) = 1 \<and>
      g_render_jinja_template_func (Py_FinalizeGo ready_state) = None \<and>
      g_initialized (Py_FinalizeGo ready_state) = 0"
    using finalize_latches[of ready_state] fresh by blast
  show ?thesis using fresh released rest by blast
qed

subsection \<open>Py\_ReinitializeGo\<close>

lemma ensure_python_init_lock_cases:
  "ensure_python_init_lock env s = None \<longleftrightarrow>
     g_python_init_lock s = None \<and> \<not> PyThread_allocate_lock_ok env"
  "ensure_python_init_lock env s = Some s1 \<Longrightarrow>
     s1 = s\<lparr>g_python_init_lock :=
             Some (case g_python_init_lock s of None \<Rightarrow> False | Some held \<Rightarrow> held)\<rparr>"
  by (auto simp: ensure_python_init_lock_def split: option.splits if_splits)

lemma initialize_finalized:
  "g_finalized (snd (Py_InitializeGo env s)) = g_finalized s"
  by (auto simp: Py_InitializeGo_def prim_defs acquire_python_init_lock_def
      release_python_init_lock_def Let_def split: option.splits
      dest!: ensure_python_init_lock_cases(2))

lemma ensure_init_lock_finalized:
  "ensure_init_lock env s = Some s1 \<Longrightarrow> g_finalized s1 = g_finalized s"
  by (auto simp: ensure_init_lock_def split: option.splits if_splits)

lemma resolve_finalized:
  "g_finalized (snd (resolve_entry_points env s)) = g_finalized s"
  by (simp add: resolve_entry_points_def prim_defs release_init_lock_def Let_def
      split: option.split)

lemma init_cache_finalized:
  "g_finalized (snd (Py_InitChatTemplateModule env s)) = g_finalized s"
proof (cases "ensure_init_lock env s")
  case None
  then show ?thesis by (simp add: Py_InitChatTemplateModule_def printf_def)
next
  case (Some s1)
  then show ?thesis
    using ensure_init_lock_finalized[OF Some]
    by (simp add: Py_InitChatTemplateModule_def resolve_finalized Let_def printf_def
        release_init_lock_def acquire_init_lock_def PyGILState_Ensure_def)
qed

lemma reinitialize_reset_facts:
  "g_initialized (reinitialize_reset s) = 0"
  "g_python_initialized (reinitialize_reset s) = 0"
  "g_process_initialized (reinitialize_reset s) = 0"
  "g_render_jinja_template_func (reinitialize_reset s) = None"
  "g_get_model_chat_template_func (reinitialize_reset s) = None"
  "g_chat_template_module (reinitialize_reset s) = None"
  "c_refs (reinitialize_reset s) ob = c_refs s ob - cached_references s ob"
  "g_finalized (reinitialize_reset s) = g_finalized s"
  "g_init_pid (reinitialize_reset s) = g_init_pid s"
  by (simp_all add: reinitialize_reset_def release_cached_handles_frame
      release_cached_handles_handles release_cached_handles_refs cached_references_def)

text \<open>
  C6, as stated, fails on "all flags": \<^verbatim>\<open>Py_ReinitializeGo\<close> does not touch
  \<open>g_finalized\<close>. Called after a finalisation it succeeds, and the flag is still 1.
\<close>

theorem reinitialize_keeps_finalized:
  "g_finalized (Py_FinalizeGo ready_state) = 1 \<and>
   fst (Py_ReinitializeGo example_env (Py_FinalizeGo ready_state)) = 0 \<and>
   g_finalized (snd (Py_ReinitializeGo example_env (Py_FinalizeGo ready_state))) = 1"
  by (simp add: ready_state_eq started_state_eq initial_state_def example_env_def
      Py_ReinitializeGo_def reinitialize_reset_def
      finalize_defs init_defs prim_defs lock_defs Let_def)

text \<open>
  C6, amended. \<^verbatim>\<open>Py_ReinitializeGo\<close> resets \<open>g_initialized\<close>, \<open>g_python_initialized\<close>
  and \<open>g_process_initialized\<close> to 0, leaving \<open>g_finalized\<close> and \<open>g_init_pid\<close> as they
  were, and releases and clears each cached handle that is present. It then calls
  \<^verbatim>\<open>Py_InitializeGo\<close>; when that fails it returns its status without calling
  \<^verbatim>\<open>Py_InitChatTemplateModule\<close>; otherwise it calls \<^verbatim>\<open>Py_InitChatTemplateModule\<close> and
  returns its status, which is 0 when both succeed. A failure adds one diagnostic line.
  \<open>g_finalized\<close> is the same after the whole call as before.
\<close>

theorem reinitialize_resets_then_initializes:
  "g_initialized (reinitialize_reset s) = 0 \<and>
   g_python_initialized (reinitialize_reset s) = 0 \<and>
   g_process_initialized (reinitialize_reset s) = 0 \<and>
   g_render_jinja_template_func (reinitialize_reset s) = None \<and>
   g_get_model_chat_template_func (reinitialize_reset s) = None \<and>
   g_chat_template_module (reinitialize_reset s) = None \<and>
   (\<forall>ob. c_refs (reinitialize_reset s) ob = c_refs s ob - cached_references s ob) \<and>
   g_finalized (reinitialize_reset s) = g_finalized s \<and>
   g_init_pid (reinitialize_reset s) = g_init_pid s \<and>
   fst (Py_ReinitializeGo env s) =
     (let (r1, s2) = Py_InitializeGo env (reinitialize_reset s)
      in if r1 \<noteq> 0 then r1 else fst (Py_InitChatTemplateModule env s2)) \<and>
   snd (Py_ReinitializeGo env s) =
     (let (r1, s2) = Py_InitializeGo env (reinitialize_reset s)
      in if r1 \<noteq> 0 then
           printf ''[C] Py_ReinitializeGo ERROR - Failed to re-initialize Python'' [] s2
         else
           let (r2, s3) = Py_InitChatTemplateModule env s2
           in if r2 \<noteq> 0 then
                printf ''[C] Py_ReinitializeGo ERROR - Failed to re-initialize chat template module'' [] s3
              else s3) \<and>
   g_finalized (snd (Py_ReinitializeGo env s)) = g_finalized s"
proof -
  obtain r1 s2 where i: "Py_InitializeGo env (reinitialize_reset s) = (r1, s2)"
    by force
  obtain r2 s3 where c: "Py_InitChatTemplateModule env s2 = (r2, s3)"
    by force
  have f2: "g_finalized s2 = g_finalized s"
    using initialize_finalized[of env "reinitialize_reset s"] i
    by (simp add: reinitialize_reset_facts)
  have f3: "g_finalized s3 = g_finalized s"
    using init_cache_finalized[of env s2] c f2 by simp
  have result: "fst (Py_ReinitializeGo env s) =
     (let (r1, s2) = Py_InitializeGo env (reinitialize_reset s)
      in if r1 \<noteq> 0 then r1 else fst (Py_InitChatTemplateModule env s2))"
    by (simp add: Py_ReinitializeGo_def Let_def i c)
  have state: "snd (Py_ReinitializeGo env s) =
     (let (r1, s2) = Py_InitializeGo env (reinitialize_reset s)
      in if r1 \<noteq> 0 then
           printf ''[C] Py_ReinitializeGo ERROR - Failed to re-initialize Python'' [] s2
         else
           let (r2, s3) = Py_InitChatTemplateModule env s2
           in if r2 \<noteq> 0 then
                printf ''[C] Py_ReinitializeGo ERROR - Failed to re-initialize chat template module'' [] s3
              else s3)"
    by (simp add: Py_ReinitializeGo_def Let_def i c)
  have fin: "g_finalized (snd (Py_ReinitializeGo env s)) = g_finalized s"
    using f2 f3 by (simp add: Py_ReinitializeGo_def Let_def i c printf_def)
  show ?thesis
    using result state fin by (simp only: reinitialize_reset_facts simp_thms)
qed

subsection \<open>Py\_InitializeGo\<close>

lemma initialize_when_marked:
  "g_process_initialized s \<noteq> 0 \<Longrightarrow>
   Py_InitializeGo env s =
     (if g_init_pid s \<noteq> getpid env then
        (0, printf ''[C] Py_InitializeGo WARNING - Different PID trying to initialize (init_pid: %d, current_pid: %d)''
              [g_init_pid s, getpid env] s)
      else
        (0, printf ''[C] Py_InitializeGo - Already initialized in this process (PID: %d)''
              [getpid env] s))"
  by (simp add: Py_InitializeGo_def)

lemma initialize_succeeds:
  assumes "g_process_initialized s \<noteq> 0 \<or> g_python_init_lock s \<noteq> None \<or>
           PyThread_allocate_lock_ok env"
  shows "fst (Py_InitializeGo env s) = 0"
    and "g_process_initialized (snd (Py_InitializeGo env s)) \<noteq> 0 \<or>
         g_python_init_lock (snd (Py_InitializeGo env s)) \<noteq> None \<or>
         PyThread_allocate_lock_ok env"
  using assms
  by (auto simp: Py_InitializeGo_def prim_defs acquire_python_init_lock_def
      release_python_init_lock_def Let_def ensure_python_init_lock_cases(1)
      split: option.splits dest!: ensure_python_init_lock_cases(2))

lemma initialize_n_succeeds:
  "g_process_initialized s \<noteq> 0 \<or> g_python_init_lock s \<noteq> None \<or>
     PyThread_allocate_lock_ok env \<Longrightarrow>
   fst (initialize_n env n s) = replicate n 0"
proof (induction n arbitrary: s)
  case 0
  then show ?case by simp
next
  case (Suc n)
  obtain r s1 where i: "Py_InitializeGo env s = (r, s1)" by force
  obtain rs s2 where n: "initialize_n env n s1 = (rs, s2)" by force
  from initialize_succeeds[OF Suc.prems] i
  have r: "r = 0"
    and a: "g_process_initialized s1 \<noteq> 0 \<or> g_python_init_lock s1 \<noteq> None \<or>
            PyThread_allocate_lock_ok env"
    by simp_all
  from Suc.IH[OF a] n have "rs = replicate n 0" by simp
  then show ?case by (simp add: i n r)
qed

lemma initialize_n_fails:
  "g_process_initialized s = 0 \<and> g_python_init_lock s = None \<and>
     \<not> PyThread_allocate_lock_ok env \<Longrightarrow>
   fst (initialize_n env n s) = replicate n (- 1)"
proof (induction n arbitrary: s)
  case 0
  then show ?case by simp
next
  case (Suc n)
  let ?s1 = "printf ''[C] Py_InitializeGo ERROR - Failed to allocate Python init lock'' [] s"
  have i: "Py_InitializeGo env s = (- 1, ?s1)"
    using Suc.prems by (simp add: Py_InitializeGo_def ensure_python_init_lock_def)
  have same: "g_process_initialized ?s1 = 0 \<and> g_python_init_lock ?s1 = None \<and>
      \<not> PyThread_allocate_lock_ok env"
    using Suc.prems by (simp add: printf_def)
  obtain rs s2 where n: "initialize_n env n ?s1 = (rs, s2)" by force
  from Suc.IH[OF same] n have "rs = replicate n (- 1)" by simp
  then show ?case by (simp add: i n)
qed

lemma initialize_starts:
  "py_initialize_calls (snd (Py_InitializeGo env s)) =
     py_initialize_calls s +
     (if py_is_initialized s \<or> \<not> py_is_initialized (snd (Py_InitializeGo env s)) then 0 else 1)"
  by (auto simp: Py_InitializeGo_def prim_defs acquire_python_init_lock_def
      release_python_init_lock_def Let_def
      split: option.splits dest!: ensure_python_init_lock_cases(2))

lemma initialize_n_starts:
  "py_initialize_calls (snd (initialize_n env n s)) \<le>
     py_initialize_calls s + (if py_is_initialized s then 0 else 1)"
proof (induction n arbitrary: s)
  case 0
  then show ?case by simp
next
  case (Suc n)
  obtain r s1 where i: "Py_InitializeGo env s = (r, s1)" by force
  obtain rs s2 where n: "initialize_n env n s1 = (rs, s2)" by force
  have step: "py_initialize_calls s1 =
      py_initialize_calls s + (if py_is_initialized s \<or> \<not> py_is_initialized s1 then 0 else 1)"
    using initialize_starts[of env s] i by simp
  have keep: "py_is_initialized s \<Longrightarrow> py_is_initialized s1"
    using initialize_alive[of s env] i by simp
  have ih: "py_initialize_calls s2 \<le>
      py_initialize_calls s1 + (if py_is_initialized s1 then 0 else 1)"
    using Suc.IH[of s1] n by simp
  have "py_initialize_calls s2 \<le> py_initialize_calls s + (if py_is_initialized s then 0 else 1)"
    using step keep ih by (auto split: if_splits)
  then show ?case by (simp add: i n)
qed

text \<open>
  C4, as stated, fails on "all return success": when the init lock is still \<^verbatim>\<open>NULL\<close> and
  no lock can be allocated, \<^verbatim>\<open>Py_InitializeGo\<close> returns -1, on the first call and on
  every later one.
\<close>

theorem initialize_fails_without_lock:
  "fst (Py_InitializeGo env_without_lock initial_state) = - 1 \<and>
   fst (initialize_n env_without_lock 2 initial_state) = [- 1, - 1]"
  by (simp add: env_without_lock_def example_env_def initial_state_def numeral_2_eq_2
      Py_InitializeGo_def ensure_python_init_lock_def printf_def)

text \<open>
  C4, amended. When \<open>g_process_initialized\<close> is set and \<open>g_init_pid\<close> is the current
  process id, \<^verbatim>\<open>Py_InitializeGo\<close> returns 0 and changes nothing but the diagnostic stream
  (one line). When \<open>g_process_initialized\<close> is set and \<open>g_init_pid\<close> differs, it prints
  the warning with both ids, returns 0 and corrects nothing. When the runtime is marked
  initialized, or the init lock exists, or a lock can be allocated, \<open>n\<close> calls one after
  the other in one process all return 0; otherwise each of them returns -1. In every
  case the \<open>n\<close> calls start the interpreter at most once, and not at all when it is
  already running.
\<close>

theorem initialize_idempotent:
  "(g_process_initialized s \<noteq> 0 \<and> g_init_pid s = getpid env \<longrightarrow>
      Py_InitializeGo env s =
        (0, printf ''[C] Py_InitializeGo - Already initialized in this process (PID: %d)''
              [getpid env] s)) \<and>
   (g_process_initialized s \<noteq> 0 \<and> g_init_pid s \<noteq> getpid env \<longrightarrow>
      Py_InitializeGo env s =
        (0, printf ''[C] Py_InitializeGo WARNING - Different PID trying to initialize (init_pid: %d, current_pid: %d)''
              [g_init_pid s, getpid env] s)) \<and>
   (g_process_initialized s \<noteq> 0 \<or> g_python_init_lock s \<noteq> None \<or> PyThread_allocate_lock_ok env
      \<longrightarrow> fst (initialize_n env n s) = replicate n 0) \<and>
   (g_process_initialized s = 0 \<and> g_python_init_lock s = None \<and>
    \<not> PyThread_allocate_lock_ok env
      \<longrightarrow> fst (initialize_n env n s) = replicate n (- 1)) \<and>
   py_initialize_calls (snd (initialize_n env n s)) \<le>
     py_initialize_calls s + (if py_is_initialized s then 0 else 1)"
  using initialize_n_succeeds[of s env n] initialize_n_starts[of env n s]
    initialize_n_fails[of s env n]
  by (simp add: initialize_when_marked)

theorem initialize_idempotent_witness:
  "g_process_initialized started_state \<noteq> 0 \<and>
   g_init_pid started_state = getpid example_env \<and>
   g_init_pid started_state \<noteq> getpid (example_env\<lparr>getpid := 7\<rparr>) \<and>
   fst (Py_InitializeGo example_env started_state) = 0 \<and>
   fst (Py_InitializeGo (example_env\<lparr>getpid := 7\<rparr>) started_state) = 0 \<and>
   c_stdout (snd (Py_InitializeGo (example_env\<lparr>getpid := 7\<rparr>) started_state)) =
     [(''[C] Py_InitializeGo WARNING - Different PID trying to initialize (init_pid: %d, current_pid: %d)'',
       [4242, 7])] \<and>
   PyThread_allocate_lock_ok example_env \<and>
   fst (initialize_n example_env 3 initial_state) = [0, 0, 0] \<and>
   py_initialize_calls (snd (initialize_n example_env 3 initial_state)) \<le> 1 \<and>
   g_python_init_lock initial_state = None \<and>
   \<not> PyThread_allocate_lock_ok env_without_lock \<and>
   fst (initialize_n env_without_lock 3 initial_state) = [- 1, - 1, - 1]"
proof -
  have marked: "g_process_initialized started_state \<noteq> 0"
    and same: "g_init_pid started_state = getpid example_env"
    and other: "g_init_pid started_state \<noteq> getpid (example_env\<lparr>getpid := 7\<rparr>)"
    and lock: "PyThread_allocate_lock_ok example_env"
    and fresh: "\<not> py_is_initialized initial_state" "py_initialize_calls initial_state = 0"
    and out: "c_stdout started_state = []"
    by (simp_all add: started_state_eq initial_state_def example_env_def)
  have a: "Py_InitializeGo example_env started_state =
        (0, printf ''[C] Py_InitializeGo - Already initialized in this process (PID: %d)''
              [getpid example_env] started_state)"
    using initialize_idempotent[of started_state example_env] marked same by blast
  have b: "Py_InitializeGo (example_env\<lparr>getpid := 7\<rparr>) started_state =
        (0, printf ''[C] Py_InitializeGo WARNING - Different PID trying to initialize (init_pid: %d, current_pid: %d)''
              [g_init_pid started_state, getpid (example_env\<lparr>getpid := 7\<rparr>)] started_state)"
    using initialize_idempotent[of started_state "example_env\<lparr>getpid := 7\<rparr>"] marked other
    by blast
  have c: "fst (initialize_n example_env 3 initial_state) = replicate 3 0"
    using initialize_idempotent[of initial_state example_env 3] lock by blast
  have d: "py_initialize_calls (snd (initialize_n example_env 3 initial_state)) \<le> 1"
    using initialize_idempotent[of initial_state example_env 3] fresh by simp
  have b_out: "c_stdout (snd (Py_InitializeGo (example_env\<lparr>getpid := 7\<rparr>) started_state)) =
     [(''[C] Py_InitializeGo WARNING - Different PID trying to initialize (init_pid: %d, current_pid: %d)'',
       [4242, 7])]"
    by (simp add: b printf_def out) (simp add: started_state_eq)
  have c3: "fst (initialize_n example_env 3 initial_state) = [0, 0, 0]"
    using c by (simp add: numeral_3_eq_3)
  have none: "g_process_initialized initial_state = 0"
    "g_python_init_lock initial_state = None"
    "\<not> PyThread_allocate_lock_ok env_without_lock"
    by (simp_all add: initial_state_def env_without_lock_def example_env_def)
  have e: "fst (initialize_n env_without_lock 3 initial_state) = replicate 3 (- 1)"
    using initialize_idempotent[of initial_state env_without_lock 3] none by blast
  have e3: "fst (initialize_n env_without_lock 3 initial_state) = [- 1, - 1, - 1]"
    using e by (simp add: numeral_3_eq_3)
  show ?thesis
    using marked same other lock d b_out c3 none e3 by (simp add: a b)
qed

subsection \<open>The two calls\<close>

text \<open>
  With its preconditions met, each internal function returns, and what it returns is
  what the procedure of the specification gives: \<^verbatim>\<open>NULL\<close> when the procedure has no
  result, and otherwise a block that did not exist before the call and holds the text.
  It holds no reference of its own afterwards, has closed its GIL bracket, and has
  printed one line when, and only when, a step inside the interpreter failed.
\<close>

lemma render_runs_procedure:
  assumes a: "py_is_initialized s" and h: "g_render_jinja_template_func s = Some f"
  shows "\<exists>r s' lines.
      Py_CallRenderJinjaTemplateInternal env s (Some request) = Returned r s' \<and>
      r = (if call_procedure env f request = None then None
           else Some (Block (length (c_heap s)))) \<and>
      returned_text (Returned r s') = call_procedure env f request \<and>
      c_heap s' =
        c_heap s @ (case call_procedure env f request of None \<Rightarrow> [] | Some text \<Rightarrow> [text]) \<and>
      c_refs s' = c_refs s \<and> gil_depth s' = gil_depth s \<and>
      c_stdout s' = c_stdout s @ lines \<and>
      length lines = (if native_result env f request = None then 1 else 0)"
proof (cases "PyUnicode_FromString env request")
  case None
  then show ?thesis
    using a h
    by (simp add: Py_CallRenderJinjaTemplateInternal_def call_procedure_def native_result_def
        returned_text_def prim_defs Let_def)
next
  case enc: (Some encoded)
  show ?thesis
  proof (cases "PyTuple_Pack env encoded")
    case None
    then show ?thesis
      using a h enc
      by (simp add: Py_CallRenderJinjaTemplateInternal_def call_procedure_def native_result_def
          returned_text_def prim_defs Let_def fun_eq_iff)
  next
    case pk: (Some args)
    show ?thesis
    proof (cases "PyObject_CallObject env f args")
      case None
      then show ?thesis
        using a h enc pk
        by (simp add: Py_CallRenderJinjaTemplateInternal_def call_procedure_def
            native_result_def returned_text_def prim_defs Let_def fun_eq_iff)
    next
      case res: (Some res)
      show ?thesis
      proof (cases "PyUnicode_AsUTF8 env res")
        case None
        then show ?thesis
          using a h enc pk res
          by (simp add: Py_CallRenderJinjaTemplateInternal_def call_procedure_def
              native_result_def returned_text_def prim_defs Let_def fun_eq_iff)
      next
        case dec: (Some bytes)
        show ?thesis
          using a h enc pk res dec
          by (cases "strdup_ok env")
            (simp_all add: Py_CallRenderJinjaTemplateInternal_def call_procedure_def
              native_result_def returned_text_def prim_defs Let_def fun_eq_iff)
      qed
    qed
  qed
qed

lemma lookup_runs_procedure:
  assumes a: "g_python_initialized s \<noteq> 0 \<and> PyCallable_Check env f"
    and h: "g_get_model_chat_template_func s = Some f"
  shows "\<exists>r s' lines.
      Py_CallGetModelChatTemplateInternal env s (Some request) = Returned r s' \<and>
      r = (if call_procedure env f request = None then None
           else Some (Block (length (c_heap s)))) \<and>
      returned_text (Returned r s') = call_procedure env f request \<and>
      c_heap s' =
        c_heap s @ (case call_procedure env f request of None \<Rightarrow> [] | Some text \<Rightarrow> [text]) \<and>
      c_refs s' = c_refs s \<and> gil_depth s' = gil_depth s \<and>
      c_stdout s' = c_stdout s @ lines \<and>
      length lines = (if native_result env f request = None then 1 else 0)"
proof (cases "PyUnicode_FromString env request")
  case None
  then show ?thesis
    using a h
    by (simp add: Py_CallGetModelChatTemplateInternal_def call_procedure_def native_result_def
        returned_text_def prim_defs Let_def)
next
  case enc: (Some encoded)
  show ?thesis
  proof (cases "PyTuple_Pack env encoded")
    case None
    then show ?thesis
      using a h enc
      by (simp add: Py_CallGetModelChatTemplateInternal_def call_procedure_def native_result_def
          returned_text_def prim_defs Let_def fun_eq_iff)
  next
    case pk: (Some args)
    show ?thesis
    proof (cases "PyObject_CallObject env f args")
      case None
      then show ?thesis
        using a h enc pk
        by (simp add: Py_CallGetModelChatTemplateInternal_def call_procedure_def
            native_result_def returned_text_def prim_defs Let_def fun_eq_iff)
    next
      case res: (Some res)
      show ?thesis
      proof (cases "PyUnicode_AsUTF8 env res")
        case None
        then show ?thesis
          using a h enc pk res
          by (simp add: Py_CallGetModelChatTemplateInternal_def call_procedure_def
              native_result_def returned_text_def prim_defs Let_def fun_eq_iff)
      next
        case dec: (Some bytes)
        show ?thesis
          using a h enc pk res dec
          by (cases "strdup_ok env")
            (simp_all add: Py_CallGetModelChatTemplateInternal_def call_procedure_def
              native_result_def returned_text_def prim_defs Let_def fun_eq_iff)
      qed
    qed
  qed
qed

lemma render_null_input:
  "\<exists>msg. Py_CallRenderJinjaTemplateInternal env s None = Returned None (printf msg [] s)"
  by (cases "py_is_initialized s") (auto simp: Py_CallRenderJinjaTemplateInternal_def)

lemma lookup_null_input:
  "\<exists>msg. Py_CallGetModelChatTemplateInternal env s None = Returned None (printf msg [] s)"
  by (auto simp: Py_CallGetModelChatTemplateInternal_def split: option.split)

lemma wrapper_render: "Py_CallRenderJinjaTemplate env s t = Py_CallRenderJinjaTemplateInternal env s t"
  by (simp add: Py_CallRenderJinjaTemplate_def split: call_outcome.split)

lemma wrapper_lookup: "Py_CallGetModelChatTemplate env s t = Py_CallGetModelChatTemplateInternal env s t"
  by (simp add: Py_CallGetModelChatTemplate_def split: call_outcome.split)




lemma render_faults_iff:
  "Py_CallRenderJinjaTemplateInternal env s input = Fault \<longleftrightarrow>
     py_is_initialized s \<and> g_render_jinja_template_func s = None \<and>
     (\<exists>request encoded args. input = Some request \<and>
        PyUnicode_FromString env request = Some encoded \<and>
        PyTuple_Pack env encoded = Some args)"
  by (auto simp: Py_CallRenderJinjaTemplateInternal_def prim_defs Let_def split: option.splits)

lemma ready_state_fields:
  "py_is_initialized ready_state"
  "g_python_initialized ready_state = 1"
  "g_render_jinja_template_func ready_state = Some 3"
  "g_get_model_chat_template_func ready_state = Some 4"
  "c_stdout ready_state = []"
  "c_heap ready_state = []"
  by (simp_all add: ready_state_eq started_state_eq initial_state_def)

lemma example_procedures:
  "call_procedure example_env 3 request = Some ''rendered''"
  "call_procedure example_env 4 request = Some ''template''"
  "native_result example_env 3 request = Some ''rendered''"
  "native_result example_env 4 request = Some ''template''"
  "call_procedure env_without_encoding 3 request = None"
  "call_procedure env_without_encoding 4 request = None"
  "native_result env_without_encoding 3 request = None"
  "native_result env_without_encoding 4 request = None"
  "call_procedure env_without_memory 3 request = None"
  "call_procedure env_without_memory 4 request = None"
  "native_result env_without_memory 3 request = Some ''rendered''"
  "native_result env_without_memory 4 request = Some ''template''"
  "PyCallable_Check example_env 4"
  "PyCallable_Check env_without_encoding 4"
  "PyCallable_Check env_without_memory 4"
  "strdup_ok example_env"
  by (simp_all add: call_procedure_def native_result_def c_string_def example_env_def
      env_without_encoding_def env_without_memory_def)




text \<open>
  C5, as stated, fails for the empty string: neither path tests for it. With the cache
  filled, a call with \<^verbatim>\<open>""\<close> is encoded and passed on like any other text, and returns
  what the callable returns.
\<close>

theorem empty_text_is_not_rejected:
  "returned_text (Py_CallRenderJinjaTemplate example_env ready_state (Some '''')) =
     Some ''rendered'' \<and>
   returned_text (Py_CallGetModelChatTemplate example_env ready_state (Some '''')) =
     Some ''template''"
  by (simp add: returned_text_def ready_state_eq started_state_eq initial_state_def
      example_env_def call_defs prim_defs Let_def)

text \<open>
  C5, amended. For both selectors a call with a \<^verbatim>\<open>NULL\<close> input returns failure: it never
  faults, makes no invocation and changes nothing but one diagnostic line. The empty
  string is not rejected by this layer: with the preconditions of the call met it goes
  through the same procedure as any other text, so the call fails on it exactly when a
  step of the procedure fails, and otherwise returns the procedure's text in a new
  block.
\<close>

theorem null_input_is_rejected:
  "(\<exists>msg. Py_CallRenderJinjaTemplate env s None = Returned None (printf msg [] s)) \<and>
   (\<exists>msg. Py_CallGetModelChatTemplate env s None = Returned None (printf msg [] s)) \<and>
   (py_is_initialized s \<and> g_render_jinja_template_func s = Some f \<longrightarrow>
      (\<exists>r s'. Py_CallRenderJinjaTemplate env s (Some '''') = Returned r s' \<and>
         r = (if call_procedure env f '''' = None then None
              else Some (Block (length (c_heap s)))) \<and>
         returned_text (Returned r s') = call_procedure env f '''')) \<and>
   (g_python_initialized s \<noteq> 0 \<and> g_get_model_chat_template_func s = Some f \<and>
    PyCallable_Check env f \<longrightarrow>
      (\<exists>r s'. Py_CallGetModelChatTemplate env s (Some '''') = Returned r s' \<and>
         r = (if call_procedure env f '''' = None then None
              else Some (Block (length (c_heap s)))) \<and>
         returned_text (Returned r s') = call_procedure env f ''''))"
  using render_runs_procedure[where s = s and f = f and env = env and request = "''''"]
    lookup_runs_procedure[where s = s and f = f and env = env and request = "''''"]
    render_null_input[of env s] lookup_null_input[of env s]
  unfolding wrapper_render wrapper_lookup
  by blast

theorem null_input_is_rejected_witness:
  "py_is_initialized ready_state \<and>
   g_render_jinja_template_func ready_state = Some 3 \<and>
   g_python_initialized ready_state \<noteq> 0 \<and>
   g_get_model_chat_template_func ready_state = Some 4 \<and>
   PyCallable_Check example_env 4 \<and>
   (\<exists>s'. Py_CallRenderJinjaTemplate example_env ready_state (Some '''') =
           Returned (Some (Block 0)) s' \<and>
         returned_text (Returned (Some (Block 0)) s') = Some ''rendered'') \<and>
   (\<exists>s'. Py_CallGetModelChatTemplate example_env ready_state (Some '''') =
           Returned (Some (Block 0)) s' \<and>
         returned_text (Returned (Some (Block 0)) s') = Some ''template'') \<and>
   (\<exists>msg. Py_CallRenderJinjaTemplate example_env ready_state None =
           Returned None (printf msg [] ready_state))"
proof -
  have r: "\<exists>s'. Py_CallRenderJinjaTemplate example_env ready_state (Some '''') =
           Returned (Some (Block 0)) s' \<and>
         returned_text (Returned (Some (Block 0)) s') = Some ''rendered''"
    using null_input_is_rejected[of example_env ready_state 3]
    by (auto simp: ready_state_fields example_procedures)
  have l: "\<exists>s'. Py_CallGetModelChatTemplate example_env ready_state (Some '''') =
           Returned (Some (Block 0)) s' \<and>
         returned_text (Returned (Some (Block 0)) s') = Some ''template''"
    using null_input_is_rejected[of example_env ready_state 4]
    by (auto simp: ready_state_fields example_procedures)
  have n: "\<exists>msg. Py_CallRenderJinjaTemplate example_env ready_state None =
           Returned None (printf msg [] ready_state)"
    using null_input_is_rejected[of example_env ready_state 3] by blast
  show ?thesis using r l n by (simp add: ready_state_fields example_procedures)
qed

subsection \<open>What each path tests before it invokes\<close>

lemma lookup_guard:
  assumes "g_get_model_chat_template_func s = None \<or>
           (\<exists>f. g_get_model_chat_template_func s = Some f \<and> \<not> PyCallable_Check env f)"
  shows "\<exists>msg. Py_CallGetModelChatTemplateInternal env s input = Returned None (printf msg [] s)"
  using assms by (auto simp: Py_CallGetModelChatTemplateInternal_def)

lemma printed_only_reaches_no_invoke:
  "\<not> reaches_invoke s (Returned None (printf msg [] s))"
  by (simp add: reaches_invoke_def printf_def)

lemma render_ignores_callable_check:
  "Py_CallRenderJinjaTemplateInternal (env\<lparr>PyCallable_Check := check\<rparr>) s input =
   Py_CallRenderJinjaTemplateInternal env s input"
  by (simp add: Py_CallRenderJinjaTemplateInternal_def strdup_def Let_def split: option.split)

lemma render_reaches_invoke:
  assumes "py_is_initialized s" and "PyUnicode_FromString env request = Some encoded"
    and "PyTuple_Pack env encoded = Some args"
  shows "reaches_invoke s (Py_CallRenderJinjaTemplateInternal env s (Some request))"
    and "g_render_jinja_template_func s = None \<Longrightarrow>
         Py_CallRenderJinjaTemplateInternal env s (Some request) = Fault"
  using assms
  by (auto simp: Py_CallRenderJinjaTemplateInternal_def reaches_invoke_def prim_defs Let_def
      split: option.splits)

text \<open>
  C10, as stated, fails on "whenever the runtime is initialized and the input is
  non-null, proceeds to the invoke step": the render path returns before the invoke step
  when the request cannot be encoded (or the argument tuple cannot be made). Here the
  interpreter runs, the input is not \<^verbatim>\<open>NULL\<close>, the render handle is \<^verbatim>\<open>NULL\<close>, and the call
  returns without reaching \<^verbatim>\<open>PyObject_CallObject\<close>.
\<close>

theorem render_stops_when_encoding_fails:
  "py_is_initialized started_state \<and>
   g_render_jinja_template_func started_state = None \<and>
   \<not> reaches_invoke started_state
       (Py_CallRenderJinjaTemplateInternal env_without_encoding started_state (Some ''{}''))"
  by (simp add: started_state_eq initial_state_def env_without_encoding_def example_env_def
      Py_CallRenderJinjaTemplateInternal_def reaches_invoke_def prim_defs Let_def)

text \<open>
  C10, amended. The two paths guard the cached handle asymmetrically. For every input
  the lookup path returns failure before invoking (one diagnostic line, nothing else
  changed) when its cached handle is absent or not callable. The render path never asks
  whether its cached handle is callable (its outcome does not depend on
  \<^verbatim>\<open>PyCallable_Check\<close>) or present: whenever the interpreter is running, the input is
  not \<^verbatim>\<open>NULL\<close>, and the request is encoded and packed, it goes on to the invoke step,
  also with a \<^verbatim>\<open>NULL\<close> render handle, which it then hands to \<^verbatim>\<open>PyObject_CallObject\<close>.
\<close>

theorem selector_guards_are_asymmetric:
  "(g_get_model_chat_template_func s = None \<or>
    (\<exists>f. g_get_model_chat_template_func s = Some f \<and> \<not> PyCallable_Check env f) \<longrightarrow>
      (\<exists>msg. Py_CallGetModelChatTemplateInternal env s input =
               Returned None (printf msg [] s)) \<and>
      \<not> reaches_invoke s (Py_CallGetModelChatTemplateInternal env s input)) \<and>
   Py_CallRenderJinjaTemplateInternal (env\<lparr>PyCallable_Check := check\<rparr>) s input =
     Py_CallRenderJinjaTemplateInternal env s input \<and>
   (py_is_initialized s \<and> PyUnicode_FromString env request = Some encoded \<and>
    PyTuple_Pack env encoded = Some args \<longrightarrow>
      reaches_invoke s (Py_CallRenderJinjaTemplateInternal env s (Some request)) \<and>
      (g_render_jinja_template_func s = None \<longrightarrow>
         Py_CallRenderJinjaTemplateInternal env s (Some request) = Fault))"
proof -
  have lookup: "g_get_model_chat_template_func s = None \<or>
    (\<exists>f. g_get_model_chat_template_func s = Some f \<and> \<not> PyCallable_Check env f) \<longrightarrow>
      (\<exists>msg. Py_CallGetModelChatTemplateInternal env s input =
               Returned None (printf msg [] s)) \<and>
      \<not> reaches_invoke s (Py_CallGetModelChatTemplateInternal env s input)"
  proof
    assume a: "g_get_model_chat_template_func s = None \<or>
      (\<exists>f. g_get_model_chat_template_func s = Some f \<and> \<not> PyCallable_Check env f)"
    from lookup_guard[OF a] obtain msg where
      m: "Py_CallGetModelChatTemplateInternal env s input = Returned None (printf msg [] s)"
      by blast
    show "(\<exists>msg. Py_CallGetModelChatTemplateInternal env s input =
               Returned None (printf msg [] s)) \<and>
      \<not> reaches_invoke s (Py_CallGetModelChatTemplateInternal env s input)"
      using m printed_only_reaches_no_invoke[of s msg] by auto
  qed
  have render: "py_is_initialized s \<and> PyUnicode_FromString env request = Some encoded \<and>
    PyTuple_Pack env encoded = Some args \<longrightarrow>
      reaches_invoke s (Py_CallRenderJinjaTemplateInternal env s (Some request)) \<and>
      (g_render_jinja_template_func s = None \<longrightarrow>
         Py_CallRenderJinjaTemplateInternal env s (Some request) = Fault)"
    using render_reaches_invoke[of s env request encoded args] by blast
  show ?thesis using lookup render render_ignores_callable_check by blast
qed

theorem selector_guards_are_asymmetric_witness:
  "g_get_model_chat_template_func started_state = None \<and>
   g_render_jinja_template_func started_state = None \<and>
   py_is_initialized started_state \<and>
   PyUnicode_FromString example_env ''{}'' = Some 10 \<and>
   PyTuple_Pack example_env 10 = Some 11 \<and>
   (\<exists>msg. Py_CallGetModelChatTemplateInternal example_env started_state (Some ''{}'') =
           Returned None (printf msg [] started_state)) \<and>
   \<not> reaches_invoke started_state
       (Py_CallGetModelChatTemplateInternal example_env started_state (Some ''{}'')) \<and>
   reaches_invoke started_state
     (Py_CallRenderJinjaTemplateInternal example_env started_state (Some ''{}'')) \<and>
   Py_CallRenderJinjaTemplateInternal example_env started_state (Some ''{}'') = Fault"
proof -
  have given: "g_get_model_chat_template_func started_state = None"
    "g_render_jinja_template_func started_state = None"
    "py_is_initialized started_state"
    "PyUnicode_FromString example_env ''{}'' = Some 10"
    "PyTuple_Pack example_env 10 = Some 11"
    by (simp_all add: started_state_eq initial_state_def example_env_def)
  from selector_guards_are_asymmetric[where s = started_state and env = example_env
      and input = "Some ''{}''" and request = "''{}''" and encoded = 10 and args = 11] given
  show ?thesis by blast
qed

subsection \<open>Py\_InitChatTemplateModule\<close>

text \<open>A failing call leaves \<open>g_initialized\<close> as it was.\<close>

lemma ensure_init_lock_initialized:
  "ensure_init_lock env s = Some s1 \<Longrightarrow> g_initialized s1 = g_initialized s"
  by (auto simp: ensure_init_lock_def split: option.splits if_splits)

lemma resolve_sets_flag_on_success_only:
  "g_initialized (snd (resolve_entry_points env s)) =
     (if fst (resolve_entry_points env s) = 0 then 1 else g_initialized s)"
  by (simp add: resolve_entry_points_def prim_defs release_init_lock_def Let_def
      split: option.split)

lemma init_cache_failure_keeps_flag:
  assumes "fst (Py_InitChatTemplateModule env s) \<noteq> 0"
  shows "g_initialized (snd (Py_InitChatTemplateModule env s)) = g_initialized s"
proof (cases "ensure_init_lock env s")
  case None
  then show ?thesis
    by (simp add: Py_InitChatTemplateModule_def printf_def)
next
  case (Some s1)
  have same: "g_initialized s1 = g_initialized s"
    using ensure_init_lock_initialized[OF Some] .
  let ?s2 = "acquire_init_lock s1"
  have same2: "g_initialized ?s2 = g_initialized s" "g_python_initialized ?s2 = g_python_initialized s1"
    using same by (simp_all add: acquire_init_lock_def)
  show ?thesis
  proof (cases "g_initialized s \<noteq> 0 \<or> g_python_initialized s1 = 0")
    case True
    then show ?thesis
      using Some same2
      by (auto simp: Py_InitChatTemplateModule_def Let_def release_init_lock_def printf_def)
  next
    case False
    have eq: "Py_InitChatTemplateModule env s = resolve_entry_points env (PyGILState_Ensure ?s2)"
      using False Some same2 by (simp add: Py_InitChatTemplateModule_def Let_def)
    show ?thesis
      using assms same2
      by (simp add: eq resolve_sets_flag_on_success_only PyGILState_Ensure_def)
  qed
qed

text \<open>
  C1 does not hold of the code: a failing \<^verbatim>\<open>Py_InitChatTemplateModule\<close> keeps what it
  has assigned so far. Started from the state after \<^verbatim>\<open>Py_InitializeGo\<close>:
  \<^item> with a module that lacks \<^verbatim>\<open>get_model_chat_template\<close> the call returns -1 and
    \<open>g_initialized\<close> stays 0, but the module handle and the render handle stay in the
    globals, each with its reference, and a following render call succeeds;
  \<^item> with a module that cannot be imported the call returns -1, and a following render
    call hands the \<^verbatim>\<open>NULL\<close> handle to \<^verbatim>\<open>PyObject_CallObject\<close>;
  \<^item> with a \<^verbatim>\<open>render_jinja_template\<close> that is not callable the call returns -1 and
    leaves the borrowed pointer in the global without a reference of its own, which
    \<^verbatim>\<open>Py_FinalizeGo\<close> then releases all the same.
\<close>

theorem init_cache_failure_keeps_partial_handles:
  "fst (Py_InitChatTemplateModule env_without_lookup started_state) = - 1 \<and>
   g_initialized (snd (Py_InitChatTemplateModule env_without_lookup started_state)) = 0 \<and>
   g_chat_template_module (snd (Py_InitChatTemplateModule env_without_lookup started_state)) =
     Some 1 \<and>
   g_render_jinja_template_func (snd (Py_InitChatTemplateModule env_without_lookup started_state)) =
     Some 3 \<and>
   c_refs (snd (Py_InitChatTemplateModule env_without_lookup started_state)) 1 = 1 \<and>
   c_refs (snd (Py_InitChatTemplateModule env_without_lookup started_state)) 3 = 1 \<and>
   returned_text
     (Py_CallRenderJinjaTemplate env_without_lookup
        (snd (Py_InitChatTemplateModule env_without_lookup started_state)) (Some ''{}'')) =
     Some ''rendered'' \<and>
   fst (Py_InitChatTemplateModule env_without_module started_state) = - 1 \<and>
   Py_CallRenderJinjaTemplate env_without_module
     (snd (Py_InitChatTemplateModule env_without_module started_state)) (Some ''{}'') = Fault \<and>
   fst (Py_InitChatTemplateModule env_uncallable_render started_state) = - 1 \<and>
   g_render_jinja_template_func
     (snd (Py_InitChatTemplateModule env_uncallable_render started_state)) = Some 3 \<and>
   c_refs (snd (Py_InitChatTemplateModule env_uncallable_render started_state)) 3 = 0 \<and>
   c_refs (Py_FinalizeGo (snd (Py_InitChatTemplateModule env_uncallable_render started_state))) 3
     = - 1"
  by (simp add: started_state_eq initial_state_def env_without_lookup_def env_without_module_def
      env_uncallable_render_def finalize_defs example_env_def returned_text_def init_defs call_defs prim_defs lock_defs Let_def)

subsection \<open>The init locks\<close>

text \<open>
  Both init functions call \<^verbatim>\<open>PyThread_acquire_lock(lock, NOWAIT_LOCK)\<close> and drop its
  answer. Seen from one caller: when the lock is held on entry (by somebody else), the
  function does exactly what it does when the lock is free; it runs the check-and-set
  body and then releases the lock it never acquired.
\<close>

lemma initialize_runs_with_the_lock_held:
  assumes "g_process_initialized s = 0" and "g_python_initialized s = 0"
    and "g_python_init_lock s = Some True"
  shows "Py_InitializeGo env s =
           Py_InitializeGo env (s\<lparr>g_python_init_lock := Some False\<rparr>)"
    and "g_process_initialized (snd (Py_InitializeGo env s)) = 1"
    and "g_python_init_lock (snd (Py_InitializeGo env s)) = Some False"
  using assms
  by (auto simp: Py_InitializeGo_def prim_defs lock_defs Let_def)

lemma init_cache_runs_with_the_lock_held:
  assumes "g_initialized s = 0" and "g_python_initialized s \<noteq> 0"
    and "g_init_lock s = Some True"
  shows "Py_InitChatTemplateModule env s =
           Py_InitChatTemplateModule env (s\<lparr>g_init_lock := Some False\<rparr>)"
  using assms
  by (simp add: Py_InitChatTemplateModule_def resolve_entry_points_def prim_defs lock_defs Let_def
      split: option.split)

text \<open>
  C9 does not hold of the code: the acquisition is non-blocking and its answer is
  dropped, so a caller that does not get the lock enters the body all the same. A first
  caller is inside the body of \<^verbatim>\<open>Py_InitializeGo\<close> and holds the lock. A second caller's
  acquisition answers 0, and yet its call runs the whole body: it starts the
  interpreter, sets the flags, and releases the lock the first caller holds. When the
  first caller, which has passed its tests, goes on, \<^verbatim>\<open>Py_Initialize\<close> runs a second
  time. The same happens in \<^verbatim>\<open>Py_InitChatTemplateModule\<close>: the second caller fills the
  cache while the first holds the lock, and when the first goes on, the module is
  imported again and the references the second caller took are never released.
\<close>

theorem second_caller_enters_the_body:
  "g_python_init_lock initializer_inside = Some True \<and>
   g_python_initialized initializer_inside = 0 \<and>
   PyThread_acquire_lock_NOWAIT True = (0, True) \<and>
   fst (Py_InitializeGo example_env initializer_inside) = 0 \<and>
   py_initialize_calls (snd (Py_InitializeGo example_env initializer_inside)) = 1 \<and>
   g_python_initialized (snd (Py_InitializeGo example_env initializer_inside)) = 1 \<and>
   g_python_init_lock (snd (Py_InitializeGo example_env initializer_inside)) = Some False \<and>
   py_initialize_calls
     (PyEval_ReleaseThread
        (Py_Initialize (snd (Py_InitializeGo example_env initializer_inside)))) = 2 \<and>
   g_init_lock cache_initializer_inside = Some True \<and>
   g_initialized cache_initializer_inside = 0 \<and>
   fst (Py_InitChatTemplateModule example_env cache_initializer_inside) = 0 \<and>
   g_initialized (snd (Py_InitChatTemplateModule example_env cache_initializer_inside)) = 1 \<and>
   c_refs (snd (Py_InitChatTemplateModule example_env cache_initializer_inside)) 1 = 1 \<and>
   g_init_lock (snd (Py_InitChatTemplateModule example_env cache_initializer_inside)) =
     Some False \<and>
   c_refs
     (snd (resolve_entry_points example_env
        (PyGILState_Ensure
           (snd (Py_InitChatTemplateModule example_env cache_initializer_inside))))) 1 = 2"
  by (simp add: initializer_inside_def cache_initializer_inside_def started_state_eq
      initial_state_def example_env_def init_defs prim_defs lock_defs Let_def)

end
